theory Spec2Isabelle
  imports Complex_Main
begin

section \<open>JavaScript values\<close>

text \<open>
  The pass is written in JavaScript: material flags, blend fields, visibility and the
  clear colour are dynamically typed and are tested for truthiness (\<open>if (x)\<close>,
  \<open>a && b\<close>) or compared with \<open>!== true\<close>. Values are therefore embedded as a
  datatype. Numbers are exact rationals (every finite double is one; \<open>NaN\<close> and the
  infinities are left out); \<open>JObj\<close> is a reference to any other object (a
  \<open>Color\<close> instance, say), which is always truthy.
\<close>

datatype jsval = JUndefined | JNull | JBool bool | JNum rat | JStr string | JObj nat

fun truthy :: "jsval \<Rightarrow> bool" where
  "truthy JUndefined = False"
| "truthy JNull = False"
| "truthy (JBool b) = b"
| "truthy (JNum n) = (n \<noteq> 0)"
| "truthy (JStr s) = (s \<noteq> [])"
| "truthy (JObj r) = True"

text \<open>\<open>a && b\<close> yields \<open>a\<close> when \<open>a\<close> is falsy and \<open>b\<close> otherwise.\<close>

definition js_and :: "jsval \<Rightarrow> jsval \<Rightarrow> jsval" where
  "js_and a b = (if truthy a then b else a)"

text \<open>
  A JavaScript \<open>Map\<close> keyed by object identity, as an association list in insertion
  order: \<open>set\<close> on a present key replaces the value in place, on a new key appends;
  \<open>get\<close> on a missing key is \<open>undefined\<close>.
\<close>

type_synonym jsmap = "(nat \<times> jsval) list"

fun map_set :: "nat \<Rightarrow> jsval \<Rightarrow> jsmap \<Rightarrow> jsmap" where
  "map_set k v [] = [(k, v)]"
| "map_set k v (p # ps) = (if fst p = k then (k, v) # ps else p # map_set k v ps)"

fun map_get :: "jsmap \<Rightarrow> nat \<Rightarrow> jsval" where
  "map_get [] k = JUndefined"
| "map_get (p # ps) k = (if fst p = k then snd p else map_get ps k)"

section \<open>Doubles\<close>

text \<open>
  A JavaScript number is an IEEE 754 double. \<open>number\<close> has the finite values as
  rationals, the two infinities and \<open>NaN\<close>; the two zeros are one value, as they are
  for \<open>===\<close>. Where arithmetic or printing looks at a finite value, a rational stands
  for the double nearest to it, which is the rational itself when it is a double.
\<close>

datatype number = Finite rat | PosInfinity | NegInfinity | NaN

definition pow2 :: "int \<Rightarrow> rat" where
  "pow2 e = (if 0 \<le> e then 2 ^ nat e else 1 / 2 ^ nat (- e))"

text \<open>The number of binary digits of a positive integer.\<close>

function bitlen :: "int \<Rightarrow> int" where
  "bitlen n = (if n \<le> 0 then 0 else 1 + bitlen (n div 2))"
  by pat_completeness auto
termination
  by (relation "measure nat") auto

declare bitlen.simps [simp del]

text \<open>For \<open>x > 0\<close>, the exponent \<open>e\<close> with \<open>2 ^ e \<le> x < 2 ^ (e + 1)\<close>.\<close>

definition floor_log2 :: "rat \<Rightarrow> int" where
  "floor_log2 x =
     (if 1 \<le> x then bitlen \<lfloor>x\<rfloor> - 1
      else - bitlen (\<lceil>1 / x\<rceil> - 1))"

text \<open>Rounding to the nearest integer, a tie going to the even one.\<close>

definition round_even :: "rat \<Rightarrow> int" where
  "round_even y =
     (let f = \<lfloor>y\<rfloor>; d = y - of_int f
      in if d < 1 / 2 then f else if 1 / 2 < d then f + 1 else if even f then f else f + 1)"

text \<open>
  Rounding a rational to a double (round to nearest, ties to even): 53 significant
  bits, the exponent not below \<open>-1022\<close> (so that small values are subnormal or zero),
  and an infinity when the rounded magnitude reaches \<open>2 ^ 1024\<close>.
\<close>

definition to_double :: "rat \<Rightarrow> number" where
  "to_double x =
     (if x = 0 then Finite 0
      else
        let a = \<bar>x\<bar>;
            e = max (floor_log2 a) (- 1022);
            q = pow2 (e - 52);
            m = of_int (round_even (a / q)) * q
        in if pow2 1024 \<le> m then (if 0 < x then PosInfinity else NegInfinity)
           else Finite (if 0 < x then m else - m))"

fun as_double :: "number \<Rightarrow> number" where
  "as_double (Finite x) = to_double x"
| "as_double PosInfinity = PosInfinity"
| "as_double NegInfinity = NegInfinity"
| "as_double NaN = NaN"

text \<open>The product of two doubles: the exact product, rounded.\<close>

fun mul_doubles :: "number \<Rightarrow> number \<Rightarrow> number" where
  "mul_doubles NaN y = NaN"
| "mul_doubles x NaN = NaN"
| "mul_doubles (Finite x) (Finite y) = to_double (x * y)"
| "mul_doubles (Finite x) PosInfinity =
     (if x = 0 then NaN else if 0 < x then PosInfinity else NegInfinity)"
| "mul_doubles (Finite x) NegInfinity =
     (if x = 0 then NaN else if 0 < x then NegInfinity else PosInfinity)"
| "mul_doubles PosInfinity (Finite y) =
     (if y = 0 then NaN else if 0 < y then PosInfinity else NegInfinity)"
| "mul_doubles NegInfinity (Finite y) =
     (if y = 0 then NaN else if 0 < y then NegInfinity else PosInfinity)"
| "mul_doubles PosInfinity PosInfinity = PosInfinity"
| "mul_doubles PosInfinity NegInfinity = NegInfinity"
| "mul_doubles NegInfinity PosInfinity = NegInfinity"
| "mul_doubles NegInfinity NegInfinity = PosInfinity"

text \<open>The operator \<open>*\<close> on numbers.\<close>

definition double_mul :: "number \<Rightarrow> number \<Rightarrow> number" where
  "double_mul a b = mul_doubles (as_double a) (as_double b)"

section \<open>three.js constants used by the pass\<close>

definition CustomBlending :: jsval where "CustomBlending = JNum 5"
definition AddEquation :: jsval where "AddEquation = JNum 100"
definition ZeroFactor :: jsval where "ZeroFactor = JNum 200"
definition OneFactor :: jsval where "OneFactor = JNum 201"
definition SrcAlphaFactor :: jsval where "SrcAlphaFactor = JNum 204"
definition OneMinusSrcAlphaFactor :: jsval where "OneMinusSrcAlphaFactor = JNum 205"
definition SRGBColorSpace :: jsval where "SRGBColorSpace = JStr ''srgb''"

section \<open>Scene objects and materials\<close>

text \<open>
  Materials and objects are shared mutable objects: several meshes may hold the same
  material. They live in a store indexed by identity. \<open>uniforms\<close> is \<open>None\<close> when the
  material has no \<open>uniforms\<close> object; otherwise it maps a uniform's name to the
  \<open>value\<close> of that uniform.
\<close>

record material =
  transparent :: jsval
  wboitEnabled :: jsval
  blending :: jsval
  blendEquation :: jsval
  blendSrc :: jsval
  blendDst :: jsval
  depthTest :: jsval
  depthWrite :: jsval
  renderStage :: jsval
  uniforms :: "(string \<rightharpoonup> jsval) option"

text \<open>\<open>object.material\<close>: absent, one material, or an array of materials.\<close>

datatype material_field = NoMaterial | OneMaterial nat | MaterialArray "nat list"

record object3d =
  visible :: jsval
  material_of :: material_field

text \<open>\<open>!object.material\<close>: an array, even an empty one, is truthy.\<close>

fun has_material :: "material_field \<Rightarrow> bool" where
  "has_material NoMaterial = False"
| "has_material (OneMaterial m) = True"
| "has_material (MaterialArray ms) = True"

text \<open>
  \<open>Array.isArray(object.material) ? object.material : [object.material]\<close>. The pass
  evaluates this only for objects that have passed \<open>if (!object.material) return\<close>
  (the members of its maps and arrays) or under \<open>if (key.material)\<close>, and it never
  assigns \<open>object.material\<close>; the first equation is never reached from \<open>render\<close>.
\<close>

fun materials :: "material_field \<Rightarrow> nat list" where
  "materials NoMaterial = []"
| "materials (OneMaterial m) = [m]"
| "materials (MaterialArray ms) = ms"

text \<open>The scene graph; \<open>traverse\<close> visits a node, then its children in order.\<close>

datatype node = Node nat "node list"

fun traverse :: "node \<Rightarrow> nat list" where
  "traverse (Node i cs) = i # concat (map traverse cs)"

section \<open>The state the closures of \<open>render\<close> share\<close>

text \<open>
  \<open>objs\<close> and \<open>mats\<close> are the store and \<open>overrideMaterial\<close> is the scene's
  field; \<open>cache\<close> to \<open>writeCache\<close> are the seven snapshot maps of the pass under the
  names \<open>render\<close> gives them; the three mesh arrays are locals of \<open>render\<close>.
\<close>

record frame =
  objs :: "nat \<Rightarrow> object3d"
  mats :: "nat \<Rightarrow> material"
  overrideMaterial :: jsval
  cache :: jsmap
  blendingCache :: jsmap
  blendEquationCache :: jsmap
  blendSrcCache :: jsmap
  blendDstCache :: jsmap
  testCache :: jsmap
  writeCache :: jsmap
  opaqueMeshes :: "nat list"
  transparentMeshes :: "nat list"
  wboitMeshes :: "nat list"

subsection \<open>gatherMeshes\<close>

text \<open>The first loop over the materials of one object: the two flags and the depth snapshot.\<close>

fun flags_loop :: "nat list \<Rightarrow> jsval \<Rightarrow> jsval \<Rightarrow> frame \<Rightarrow> jsval \<times> jsval \<times> frame" where
  "flags_loop [] isTransparent isWboitCapable f = (isTransparent, isWboitCapable, f)"
| "flags_loop (m # ms) isTransparent isWboitCapable f =
     (let isTransparent' = js_and isTransparent (transparent (mats f m));
          isWboitCapable' = js_and (js_and isWboitCapable isTransparent') (wboitEnabled (mats f m));
          f1 = f\<lparr>testCache := map_set m (depthTest (mats f m)) (testCache f)\<rparr>;
          f2 = f1\<lparr>writeCache := map_set m (depthWrite (mats f1 m)) (writeCache f1)\<rparr>
      in flags_loop ms isTransparent' isWboitCapable' f2)"

text \<open>The loops that force the depth flags of an opaque or transparent mesh.\<close>

fun set_depth :: "jsval \<Rightarrow> jsval \<Rightarrow> nat list \<Rightarrow> frame \<Rightarrow> frame" where
  "set_depth t w [] f = f"
| "set_depth t w (m # ms) f =
     set_depth t w ms (f\<lparr>mats := (mats f)(m := (mats f m)\<lparr>depthTest := t, depthWrite := w\<rparr>)\<rparr>)"

text \<open>The loop that snapshots the blend fields of a WBOIT mesh.\<close>

fun cache_blend :: "nat list \<Rightarrow> frame \<Rightarrow> frame" where
  "cache_blend [] f = f"
| "cache_blend (m # ms) f =
     cache_blend ms (f\<lparr>
       blendingCache := map_set m (blending (mats f m)) (blendingCache f),
       blendEquationCache := map_set m (blendEquation (mats f m)) (blendEquationCache f),
       blendSrcCache := map_set m (blendSrc (mats f m)) (blendSrcCache f),
       blendDstCache := map_set m (blendDst (mats f m)) (blendDstCache f)\<rparr>)"

text \<open>The callback \<open>gatherMeshes\<close> passes to \<open>scene.traverse\<close>.\<close>

definition visit :: "nat \<Rightarrow> frame \<Rightarrow> frame" where
  "visit ob f =
     (if \<not> has_material (material_of (objs f ob)) then f
      else if \<not> truthy (visible (objs f ob)) then f
      else
        let ms = materials (material_of (objs f ob));
            (isTransparent, isWboitCapable, f1) = flags_loop ms (JBool True) (JBool True) f;
            f2 = (if \<not> truthy isWboitCapable then
                    (if \<not> truthy isTransparent then
                       set_depth (JBool True) (JBool True) ms
                         (f1\<lparr>opaqueMeshes := opaqueMeshes f1 @ [ob]\<rparr>)
                     else
                       set_depth (JBool True) (JBool False) ms
                         (f1\<lparr>transparentMeshes := transparentMeshes f1 @ [ob]\<rparr>))
                  else
                    cache_blend ms (f1\<lparr>wboitMeshes := wboitMeshes f1 @ [ob]\<rparr>))
        in f2\<lparr>cache := map_set ob (visible (objs f2 ob)) (cache f2)\<rparr>)"

fun visit_all :: "nat list \<Rightarrow> frame \<Rightarrow> frame" where
  "visit_all [] f = f"
| "visit_all (ob # obs) f = visit_all obs (visit ob f)"

definition gatherMeshes :: "node \<Rightarrow> frame \<Rightarrow> frame" where
  "gatherMeshes sceneNode f = visit_all (traverse sceneNode) f"

subsection \<open>changeVisible and resetVisible\<close>

fun set_visible :: "jsval \<Rightarrow> nat list \<Rightarrow> frame \<Rightarrow> frame" where
  "set_visible v [] f = f"
| "set_visible v (ob # obs) f =
     set_visible v obs (f\<lparr>objs := (objs f)(ob := (objs f ob)\<lparr>visible := v\<rparr>)\<rparr>)"

definition changeVisible :: "bool \<Rightarrow> bool \<Rightarrow> bool \<Rightarrow> frame \<Rightarrow> frame" where
  "changeVisible opaqueVisible transparentVisible wboitVisible f =
     (let f1 = set_visible (JBool opaqueVisible) (opaqueMeshes f) f;
          f2 = set_visible (JBool transparentVisible) (transparentMeshes f1) f1
      in set_visible (JBool wboitVisible) (wboitMeshes f2) f2)"

text \<open>
  The inner loop of \<open>resetVisible\<close>, statement by statement:
  \<open>materials[i].depthWrite = testCache.get(materials[i])\<close>, then
  \<open>materials[i].depthTest = writeCache.get(materials[i])\<close>.
\<close>

fun reset_depth :: "nat list \<Rightarrow> frame \<Rightarrow> frame" where
  "reset_depth [] f = f"
| "reset_depth (m # ms) f =
     (let f1 = f\<lparr>mats := (mats f)(m := (mats f m)\<lparr>depthWrite := map_get (testCache f) m\<rparr>)\<rparr>;
          f2 = f1\<lparr>mats := (mats f1)(m := (mats f1 m)\<lparr>depthTest := map_get (writeCache f1) m\<rparr>)\<rparr>
      in reset_depth ms f2)"

text \<open>\<open>for (const [key, value] of cache)\<close>, in insertion order.\<close>

fun reset_entries :: "jsmap \<Rightarrow> frame \<Rightarrow> frame" where
  "reset_entries [] f = f"
| "reset_entries (e # es) f =
     (let f1 = f\<lparr>objs := (objs f)(fst e := (objs f (fst e))\<lparr>visible := snd e\<rparr>)\<rparr>;
          f2 = (if has_material (material_of (objs f1 (fst e)))
                then reset_depth (materials (material_of (objs f1 (fst e)))) f1
                else f1)
      in reset_entries es f2)"

definition resetVisible :: "frame \<Rightarrow> frame" where
  "resetVisible f = reset_entries (cache f) f"

subsection \<open>prepareWboitBlending\<close>

text \<open>
  \<open>WboitStages\<close> is imported from \<open>materials/MeshWboitMaterial.js\<close>; the three stage
  numbers are a parameter of the embedding, under the names the pass uses.
\<close>

record wboit_stages =
  Normal :: rat
  Acummulation :: rat
  Revealage :: rat

text \<open>
  \<open>stage.toFixed(1)\<close>. Below \<open>1e21\<close> in magnitude: a sign, then the integer \<open>n\<close>
  closest to ten times the magnitude (the larger one on a tie), printed with one digit
  after the point. From \<open>1e21\<close> on the magnitude is printed as \<open>ToString\<close> prints
  it, in exponent form: the digits of the shortest integer \<open>s\<close> (of \<open>k\<close> digits) for
  which \<open>s * 10 ^ (n - k)\<close> rounds to the number, the closest one if there are
  several, a point after the first digit, and the exponent \<open>n - 1\<close>.
\<close>

function dec :: "int \<Rightarrow> string" where
  "dec n = (if n < 10 then [''0123456789'' ! nat n]
            else dec (n div 10) @ [''0123456789'' ! nat (n mod 10)])"
  by pat_completeness auto
termination
  by (relation "measure nat") auto

declare dec.simps [simp del]

text \<open>The number of decimal digits of a positive integer.\<close>

function digits10 :: "int \<Rightarrow> int" where
  "digits10 n = (if n \<le> 0 then 0 else 1 + digits10 (n div 10))"
  by pat_completeness auto
termination
  by (relation "measure nat") auto

declare digits10.simps [simp del]

definition sci_value :: "int \<Rightarrow> int \<Rightarrow> int \<Rightarrow> rat" where
  "sci_value k s n = of_int s * 10 ^ nat (n - k)"

text \<open>The integers \<open>s\<close> of \<open>k\<close> digits, paired with \<open>n\<close>, that print the double \<open>x\<close>.\<close>

definition sci_candidates :: "rat \<Rightarrow> int \<Rightarrow> int \<Rightarrow> (int \<times> int) list" where
  "sci_candidates x k n =
     (let t = \<lfloor>x / 10 ^ nat (n - k)\<rfloor>
      in map (\<lambda>s. (s, n))
           (filter (\<lambda>s. 10 ^ nat (k - 1) \<le> s \<and> s < 10 ^ nat k \<and>
                         to_double (sci_value k s n) = Finite x) [t, t + 1]))"

definition sci_better :: "rat \<Rightarrow> int \<Rightarrow> int \<times> int \<Rightarrow> int \<times> int \<Rightarrow> int \<times> int" where
  "sci_better x k c b =
     (let dc = \<bar>sci_value k (fst c) (snd c) - x\<bar>; db = \<bar>sci_value k (fst b) (snd b) - x\<bar>
      in if dc < db \<or> (dc = db \<and> even (fst c)) then c else b)"

text \<open>
  The search for the least \<open>k\<close>, from \<open>k\<close> on; \<open>n0\<close> is the number of integer digits
  of \<open>x\<close>. Seventeen digits always print a double, so the first equation is not
  reached from \<open>exponent_form\<close>.
\<close>

fun shortest :: "nat \<Rightarrow> int \<Rightarrow> rat \<Rightarrow> int \<Rightarrow> int \<times> int \<times> int" where
  "shortest 0 k x n0 = (k, \<lfloor>x / 10 ^ nat (n0 - k)\<rfloor>, n0)"
| "shortest (Suc fuel) k x n0 =
     (case sci_candidates x k n0 @ sci_candidates x k (n0 + 1) of
        [] \<Rightarrow> shortest fuel (k + 1) x n0
      | c # cs \<Rightarrow> (case fold (sci_better x k) cs c of (s, n) \<Rightarrow> (k, s, n)))"

text \<open>\<open>ToString\<close> of a double \<open>x \<ge> 1e21\<close>.\<close>

definition exponent_form :: "rat \<Rightarrow> string" where
  "exponent_form x =
     (case shortest 17 1 x (digits10 \<lfloor>x\<rfloor>) of
        (k, s, n) \<Rightarrow>
          (if k = 1 then dec s else hd (dec s) # ''.'' @ tl (dec s)) @ ''e+'' @ dec (n - 1))"

definition toFixed1 :: "rat \<Rightarrow> string" where
  "toFixed1 x =
     (case to_double x of
        NaN \<Rightarrow> ''NaN''
      | PosInfinity \<Rightarrow> ''Infinity''
      | NegInfinity \<Rightarrow> ''-Infinity''
      | Finite d \<Rightarrow>
          (let s = (if d < 0 then ''-'' else []); a = \<bar>d\<bar>
           in if 10 ^ 21 \<le> a then s @ exponent_form a
              else let n = \<lfloor>a * 10 + 1 / 2\<rfloor>
                   in s @ dec (n div 10) @ ''.'' @ dec (n mod 10)))"

text \<open>
  The stage channel of one material: \<open>if (materials[i].renderStage) \<dots> else if
  (materials[i].uniforms && materials[i].uniforms["renderStage"]) \<dots>\<close>. A uniform
  entry is an object and so truthy whenever it is present.
\<close>

definition set_stage_channel :: "rat \<Rightarrow> nat \<Rightarrow> frame \<Rightarrow> frame" where
  "set_stage_channel stage m f =
     (if truthy (renderStage (mats f m)) then
        f\<lparr>mats := (mats f)(m := (mats f m)\<lparr>renderStage := JNum stage\<rparr>)\<rparr>
      else
        (case uniforms (mats f m) of
           None \<Rightarrow> f
         | Some u \<Rightarrow>
             (case u ''renderStage'' of
                None \<Rightarrow> f
              | Some v \<Rightarrow>
                  f\<lparr>mats := (mats f)(m := (mats f m)
                       \<lparr>uniforms := Some (u(''renderStage'' \<mapsto> JStr (toFixed1 stage)))\<rparr>)\<rparr>)))"

text \<open>The \<open>switch (stage)\<close> of one material; \<open>case\<close> labels compare with \<open>===\<close>.\<close>

definition set_stage_blend :: "wboit_stages \<Rightarrow> rat \<Rightarrow> nat \<Rightarrow> frame \<Rightarrow> frame" where
  "set_stage_blend W stage m f =
     (if stage = Acummulation W then
        f\<lparr>mats := (mats f)(m := (mats f m)
           \<lparr>blending := CustomBlending, blendEquation := AddEquation,
            blendSrc := OneFactor, blendDst := OneFactor,
            depthWrite := JBool False, depthTest := JBool True\<rparr>)\<rparr>
      else if stage = Revealage W then
        f\<lparr>mats := (mats f)(m := (mats f m)
           \<lparr>blending := CustomBlending, blendEquation := AddEquation,
            blendSrc := ZeroFactor, blendDst := OneMinusSrcAlphaFactor,
            depthWrite := JBool False, depthTest := JBool True\<rparr>)\<rparr>
      else
        f\<lparr>mats := (mats f)(m := (mats f m)
           \<lparr>blending := map_get (blendingCache f) m,
            blendEquation := map_get (blendEquationCache f) m,
            blendSrc := map_get (blendSrcCache f) m,
            blendDst := map_get (blendDstCache f) m\<rparr>)\<rparr>)"

text \<open>The body of the loop over the materials of one mesh, with its \<open>continue\<close>.\<close>

definition prepare_material :: "wboit_stages \<Rightarrow> rat \<Rightarrow> nat \<Rightarrow> frame \<Rightarrow> frame" where
  "prepare_material W stage m f =
     (if wboitEnabled (mats f m) \<noteq> JBool True \<or> transparent (mats f m) \<noteq> JBool True then f
      else set_stage_blend W stage m (set_stage_channel stage m f))"

fun prepare_materials :: "wboit_stages \<Rightarrow> rat \<Rightarrow> nat list \<Rightarrow> frame \<Rightarrow> frame" where
  "prepare_materials W stage [] f = f"
| "prepare_materials W stage (m # ms) f =
     prepare_materials W stage ms (prepare_material W stage m f)"

fun prepare_meshes :: "wboit_stages \<Rightarrow> rat \<Rightarrow> nat list \<Rightarrow> frame \<Rightarrow> frame" where
  "prepare_meshes W stage [] f = f"
| "prepare_meshes W stage (ob # obs) f =
     prepare_meshes W stage obs
       (prepare_materials W stage (materials (material_of (objs f ob))) f)"

definition prepareWboitBlending :: "wboit_stages \<Rightarrow> rat \<Rightarrow> frame \<Rightarrow> frame" where
  "prepareWboitBlending W stage f = prepare_meshes W stage (wboitMeshes f) f"

section \<open>The renderer and the pass\<close>

text \<open>
  The host renderer is outside the repository. Its state is the fields the pass reads
  and writes; every call the pass makes on it, and every render of a sub-pass, is
  appended to \<open>calls\<close>. What a sub-pass or a scene render does inside the host is not
  modelled.
\<close>

datatype target = NullTarget | ExternalTarget nat | BaseTarget | AccumulationTarget | TestTarget nat

datatype subpass = OpaquePass | TransparentPass | CopyPass | CompositePass | TestPass

datatype call =
    SetRenderTarget target
  | SetClearColor jsval jsval
  | ClearColor
  | Clear
  | RenderScene
  | PassRender subpass target "target option"

record renderer =
  autoClear :: jsval
  rClearColor :: jsval
  rClearAlpha :: jsval
  renderTarget :: target
  outputColorSpace :: jsval
  sizeWidth :: number
  sizeHeight :: number
  pixelRatio :: number
  calls :: "call list"

definition setRenderTarget :: "target \<Rightarrow> renderer \<Rightarrow> renderer" where
  "setRenderTarget t r = r\<lparr>renderTarget := t, calls := calls r @ [SetRenderTarget t]\<rparr>"

definition setClearColor :: "jsval \<Rightarrow> jsval \<Rightarrow> renderer \<Rightarrow> renderer" where
  "setClearColor c a r =
     r\<lparr>rClearColor := c, rClearAlpha := a, calls := calls r @ [SetClearColor c a]\<rparr>"

definition do_call :: "call \<Rightarrow> renderer \<Rightarrow> renderer" where
  "do_call c r = r\<lparr>calls := calls r @ [c]\<rparr>"

datatype target_type = FloatType | HalfFloatType | UnsignedByteType

text \<open>A \<open>WebGLRenderTarget\<close>; \<open>texType\<close> is \<open>None\<close> when the option passed is \<open>undefined\<close>.\<close>

record render_target =
  width :: number
  height :: number
  texType :: "target_type option"
  depthBuffer :: bool

text \<open>\<open>this.scene\<close>: a value that is not an object, or an object with its \<open>isScene\<close> field and its graph.\<close>

datatype scene_val = NotObject jsval | SceneObject jsval node

record pass =
  scene :: scene_val
  camera :: jsval
  clearColor :: jsval
  clearAlpha :: jsval
  clear :: bool
  clearDepth :: bool
  needsSwap :: bool
  oldClearColor :: jsval
  opaqueGamma :: jsval
  transparentGamma :: jsval
  compositeGamma :: jsval
  tAccumulation :: "target option"
  tRevealage :: "target option"
  baseTarget :: render_target
  accumulationTarget :: render_target

definition clearColorZero :: jsval where "clearColorZero = JNum 0"
definition clearColorOne :: jsval where "clearColorOne = JNum 16777215"

subsection \<open>setSize\<close>


subsection \<open>render\<close>

definition uGamma :: "renderer \<Rightarrow> jsval" where
  "uGamma r = (if outputColorSpace r = SRGBColorSpace then JNum 1 else JNum 0)"

text \<open>The body of \<open>render\<close> after the guard, one binding per statement.\<close>

definition render_scene :: "wboit_stages \<Rightarrow> target \<Rightarrow> node \<Rightarrow> pass \<Rightarrow> frame \<Rightarrow> renderer \<Rightarrow> pass \<times> frame \<times> renderer" where
  "render_scene W writeBuffer graph p0 f0 r0 =
     (let f1 = f0\<lparr>opaqueMeshes := [], transparentMeshes := [], wboitMeshes := []\<rparr>;
          \<comment> \<open>Save Current State\<close>
          oldAutoClear = autoClear r0;
          oldClearAlpha = rClearAlpha r0;
          oldRenderTarget = renderTarget r0;
          oldOverrideMaterial = overrideMaterial f1;
          r1 = r0\<lparr>autoClear := JBool False\<rparr>;
          p1 = p0\<lparr>oldClearColor := rClearColor r1\<rparr>;
          f2 = f1\<lparr>overrideMaterial := JNull\<rparr>;
          \<comment> \<open>Gather Opaque / Transparent Meshes\<close>
          f3 = gatherMeshes graph f2;
          \<comment> \<open>Clear Write Buffer\<close>
          r2 = (if truthy (clearColor p1)
                then do_call ClearColor
                       (setClearColor (clearColor p1) (clearAlpha p1) (setRenderTarget writeBuffer r1))
                else r1);
          \<comment> \<open>Render Opaque Objects\<close>
          f4 = changeVisible True False False f3;
          r3 = do_call RenderScene (do_call Clear
                 (setClearColor clearColorZero (JNum 0) (setRenderTarget BaseTarget r2)));
          \<comment> \<open>Gamma Correction\<close>
          p2 = p1\<lparr>opaqueGamma := uGamma r3, transparentGamma := uGamma r3,
                  compositeGamma := uGamma r3\<rparr>;
          r4 = do_call (PassRender OpaquePass writeBuffer (Some BaseTarget)) r3;
          \<comment> \<open>Render Transparent Objects\<close>
          f5 = changeVisible False True False f4;
          r5 = do_call RenderScene (do_call ClearColor (setRenderTarget BaseTarget r4));
          r6 = do_call (PassRender TransparentPass writeBuffer (Some BaseTarget)) r5;
          \<comment> \<open>Render Wboit Objects, Accumulation Pass\<close>
          f6 = changeVisible False False True f5;
          f7 = prepareWboitBlending W (Acummulation W) f6;
          r7 = do_call RenderScene (do_call ClearColor (setRenderTarget BaseTarget r6));
          r8 = do_call (PassRender CopyPass AccumulationTarget (Some BaseTarget)) r7;
          \<comment> \<open>Render Wboit Objects, Revealage Pass\<close>
          f8 = prepareWboitBlending W (Revealage W) f7;
          r9 = do_call RenderScene (do_call ClearColor
                 (setClearColor clearColorOne (JNum 1) (setRenderTarget BaseTarget r8)));
          \<comment> \<open>Composite Wboit Objects\<close>
          r10 = setRenderTarget writeBuffer r9;
          p3 = p2\<lparr>tAccumulation := Some AccumulationTarget, tRevealage := Some BaseTarget\<rparr>;
          r11 = do_call (PassRender CompositePass writeBuffer None) r10;
          \<comment> \<open>Restore Original State\<close>
          f9 = prepareWboitBlending W (Normal W) f8;
          f10 = resetVisible f9;
          r12 = setRenderTarget oldRenderTarget r11;
          r13 = setClearColor (oldClearColor p3) oldClearAlpha r12;
          f11 = f10\<lparr>overrideMaterial := oldOverrideMaterial\<rparr>;
          r14 = r13\<lparr>autoClear := oldAutoClear\<rparr>;
          \<comment> \<open>Clear Caches\<close>
          f12 = f11\<lparr>cache := [], blendingCache := [], blendEquationCache := [],
                    blendSrcCache := [], blendDstCache := [], testCache := [], writeCache := []\<rparr>
      in (p3, f12, r14))"

text \<open>
  \<open>if (!scene || !scene.isScene) return;\<close> A truthy value that is not an object has
  no \<open>isScene\<close> field, so both kinds of non-object return.
\<close>

definition render :: "wboit_stages \<Rightarrow> target \<Rightarrow> pass \<times> frame \<times> renderer \<Rightarrow> pass \<times> frame \<times> renderer" where
  "render W writeBuffer s =
     (case s of (p, f, r) \<Rightarrow>
        (case scene p of
           NotObject v \<Rightarrow> (p, f, r)
         | SceneObject isScene graph \<Rightarrow>
             if \<not> truthy isScene then (p, f, r)
             else render_scene W writeBuffer graph p f r))"

subsection \<open>The constructor\<close>

text \<open>
  What the graphics context answers in iteration \<open>i\<close> of the probe loop, after the
  fill pass has rendered into the 1x1 test target: the framebuffer status and the four
  numbers \<open>readPixels\<close> leaves in the buffer of that iteration.
\<close>

record gl_reading =
  framebufferStatus :: nat
  red :: rat
  green :: rat
  blue :: rat
  alpha :: rat

type_synonym gl_context = "nat \<Rightarrow> gl_reading"

definition FRAMEBUFFER_COMPLETE :: nat where "FRAMEBUFFER_COMPLETE = 36053"

definition targetTypes :: "target_type list" where
  "targetTypes = [FloatType, HalfFloatType, UnsignedByteType]"

definition targetDivisor :: "rat list" where
  "targetDivisor = [1, 15360, 255]"

definition testR :: rat where "testR = 1"
definition testG :: rat where "testG = 1"
definition testB :: rat where "testB = 1"
definition testA :: rat where "testA = 0"

text \<open>
  \<open>fuzzyEqual(a, b, epsilon = 0.01)\<close>, always called with two arguments, \<open>b\<close> being
  1 or 0. The comparison is written over exact rationals and decides as the code's
  doubles do: \<open>1 + 0.01\<close> and \<open>0 + 0.01\<close> are doubles not below 1.01 and 0.01, and
  \<open>1 - 0.01\<close> and \<open>0 - 0.01\<close> doubles not above 0.99 and -0.01, each the double
  nearest to its bound, so no double lies between a bound and the double the code
  compares with; and no 16-bit or 8-bit integer divided by 15360 or 255 rounds across a
  bound.
\<close>

definition fuzzyEqual :: "rat \<Rightarrow> rat \<Rightarrow> bool" where
  "fuzzyEqual a b = (a < b + 1 / 100 \<and> a > b - 1 / 100)"

text \<open>The value of \<open>complete\<close> before its last reassignment: the round trip itself.\<close>

definition round_trip_ok :: "gl_context \<Rightarrow> nat \<Rightarrow> bool" where
  "round_trip_ok gl i =
     (let d = targetDivisor ! i;
          complete0 = (framebufferStatus (gl i) = FRAMEBUFFER_COMPLETE);
          complete1 = (complete0 \<and> fuzzyEqual (red (gl i) / d) testR);
          complete2 = (complete1 \<and> fuzzyEqual (green (gl i) / d) testG);
          complete3 = (complete2 \<and> fuzzyEqual (blue (gl i) / d) testB)
      in complete3 \<and> fuzzyEqual (alpha (gl i) / d) testA)"

text \<open>\<open>complete = complete || i === targetTypes.length - 1\<close>\<close>

definition complete :: "gl_context \<Rightarrow> nat \<Rightarrow> bool" where
  "complete gl i = (round_trip_ok gl i \<or> i = length targetTypes - 1)"

text \<open>
  The \<open>for\<close> loop from iteration \<open>i\<close> on. It yields \<open>targetType\<close>, which is
  \<open>undefined\<close> (\<open>None\<close>) if the loop ends without \<open>break\<close>.
\<close>

function probe_loop :: "gl_context \<Rightarrow> nat \<Rightarrow> renderer \<Rightarrow> target_type option \<times> renderer" where
  "probe_loop gl i r =
     (if i < length targetTypes then
        (let r1 = do_call (PassRender TestPass (TestTarget i) None) r
         in if complete gl i then (Some (targetTypes ! i), r1)
            else probe_loop gl (i + 1) r1)
      else (None, r))"
  by pat_completeness auto
termination
  by (relation "measure (\<lambda>(gl, i, r). length targetTypes - i)") auto

declare probe_loop.simps [simp del]

text \<open>
  \<open>WboitPass\<close> is a derived class (\<open>extends Pass\<close>): \<open>this\<close> is bound by \<open>super()\<close>.
  When a derived constructor returns \<open>undefined\<close>, the \<open>new\<close> expression evaluates
  to \<open>this\<close>, and reading an unbound \<open>this\<close> throws a \<open>ReferenceError\<close>.
  \<open>construct_result\<close> is that last step, with \<open>None\<close> for a \<open>this\<close> that
  \<open>super()\<close> has not bound.
\<close>

datatype js_error = ReferenceError | TypeError

fun construct_result :: "'a option \<Rightarrow> js_error + 'a" where
  "construct_result None = Inl ReferenceError"
| "construct_result (Some this) = Inr this"

text \<open>The \<open>renderer\<close> argument: a value that is not an object, or a renderer.\<close>

datatype renderer_arg = NotRenderer jsval | RendererObject renderer

text \<open>
  The constructor returns what \<open>console.error\<close> has logged and either the error the
  \<open>new\<close> expression throws or the pass with the renderer as the constructor leaves it.
  \<open>console.error\<close> returns \<open>undefined\<close>.
\<close>

definition construct_with :: "renderer \<Rightarrow> gl_context \<Rightarrow> scene_val \<Rightarrow> jsval \<Rightarrow> jsval \<Rightarrow> jsval \<Rightarrow> pass \<times> renderer" where
  "construct_with r0 gl scene0 camera0 clearColor0 clearAlpha0 =
     (let effectiveWidth = double_mul (sizeWidth r0) (pixelRatio r0);
          effectiveHeight = double_mul (sizeHeight r0) (pixelRatio r0);
          oldTarget = renderTarget r0;
          oldClearAlpha = rClearAlpha r0;
          oldClearColor0 = rClearColor r0;
          (targetType, r1) = probe_loop gl 0 r0;
          r2 = setRenderTarget oldTarget r1;
          r3 = setClearColor oldClearColor0 oldClearAlpha r2
      in (\<lparr>scene = scene0, camera = camera0, clearColor = clearColor0,
           clearAlpha = (if clearAlpha0 \<noteq> JUndefined then clearAlpha0 else JNum 0),
           clear = False, clearDepth = False, needsSwap = False,
           oldClearColor = oldClearColor0,
           opaqueGamma = JNum 0, transparentGamma = JNum 0, compositeGamma = JNum 0,
           tAccumulation = None, tRevealage = None,
           baseTarget = \<lparr>width = effectiveWidth, height = effectiveHeight,
                          texType = targetType, depthBuffer = True\<rparr>,
           accumulationTarget = \<lparr>width = effectiveWidth, height = effectiveHeight,
                                  texType = targetType, depthBuffer = False\<rparr>\<rparr>, r3))"

definition WboitPass :: "renderer_arg \<Rightarrow> gl_context \<Rightarrow> scene_val \<Rightarrow> jsval \<Rightarrow> jsval \<Rightarrow> jsval \<Rightarrow> string list \<times> (js_error + pass \<times> renderer)" where
  "WboitPass rendererArg gl scene0 camera0 clearColor0 clearAlpha0 =
     (case rendererArg of
        NotRenderer v \<Rightarrow>
          if \<not> truthy v then
            ([''WboitPass: Renderer must be supplied!''], construct_result None)
          else ([], Inl TypeError)
      | RendererObject r0 \<Rightarrow>
          ([], construct_result (Some (construct_with r0 gl scene0 camera0 clearColor0 clearAlpha0))))"

section \<open>Auxiliary notions for the proofs\<close>

text \<open>The group an object is put in, read off the frame before classification.\<close>

definition classified :: "frame \<Rightarrow> nat \<Rightarrow> bool" where
  "classified f ob = (has_material (material_of (objs f ob)) \<and> truthy (visible (objs f ob)))"

definition all_transparent :: "frame \<Rightarrow> nat \<Rightarrow> bool" where
  "all_transparent f ob =
     (\<forall>m \<in> set (materials (material_of (objs f ob))). truthy (transparent (mats f m)))"

definition all_wboit :: "frame \<Rightarrow> nat \<Rightarrow> bool" where
  "all_wboit f ob =
     (\<forall>m \<in> set (materials (material_of (objs f ob))).
        truthy (transparent (mats f m)) \<and> truthy (wboitEnabled (mats f m)))"

text \<open>
  \<open>configured W stage f m mt\<close>: the material record \<open>mt\<close> holds what the \<open>switch\<close>
  of \<open>prepareWboitBlending\<close> assigns to material \<open>m\<close> for \<open>stage\<close>, the snapshot
  maps being those of \<open>f\<close>.
\<close>

definition configured :: "wboit_stages \<Rightarrow> rat \<Rightarrow> frame \<Rightarrow> nat \<Rightarrow> material \<Rightarrow> bool" where
  "configured W stage f m mt =
     (if stage = Acummulation W then
        blending mt = CustomBlending \<and> blendEquation mt = AddEquation \<and>
        blendSrc mt = OneFactor \<and> blendDst mt = OneFactor \<and>
        depthWrite mt = JBool False \<and> depthTest mt = JBool True
      else if stage = Revealage W then
        blending mt = CustomBlending \<and> blendEquation mt = AddEquation \<and>
        blendSrc mt = ZeroFactor \<and> blendDst mt = OneMinusSrcAlphaFactor \<and>
        depthWrite mt = JBool False \<and> depthTest mt = JBool True
      else
        blending mt = map_get (blendingCache f) m \<and>
        blendEquation mt = map_get (blendEquationCache f) m \<and>
        blendSrc mt = map_get (blendSrcCache f) m \<and>
        blendDst mt = map_get (blendDstCache f) m)"

text \<open>
  \<open>snapshot_ok f0 f\<close>: on the way from \<open>f0\<close> to \<open>f\<close> no blend field has changed, and the
  blend snapshot of every material of every WBOIT mesh holds the field's value.
\<close>

definition snapshot_ok :: "frame \<Rightarrow> frame \<Rightarrow> bool" where
  "snapshot_ok f0 f =
     ((\<forall>m. blending (mats f m) = blending (mats f0 m) \<and>
           blendEquation (mats f m) = blendEquation (mats f0 m) \<and>
           blendSrc (mats f m) = blendSrc (mats f0 m) \<and>
           blendDst (mats f m) = blendDst (mats f0 m)) \<and>
      (\<forall>ob \<in> set (wboitMeshes f). \<forall>m \<in> set (materials (material_of (objs f ob))).
           map_get (blendingCache f) m = blending (mats f0 m) \<and>
           map_get (blendEquationCache f) m = blendEquation (mats f0 m) \<and>
           map_get (blendSrcCache f) m = blendSrc (mats f0 m) \<and>
           map_get (blendDstCache f) m = blendDst (mats f0 m)))"

text \<open>\<open>scene && scene.isScene\<close>, the negation of the guard of \<open>render\<close>.\<close>

fun valid_scene :: "scene_val \<Rightarrow> bool" where
  "valid_scene (NotObject v) = False"
| "valid_scene (SceneObject isScene graph) = truthy isScene"

section \<open>A sample scene\<close>

text \<open>
  The root (object 0, no material) has three children: mesh 1 with the WBOIT material
  10, mesh 2 with the material array [11, 12] (11 transparent, 12 opaque) and an
  invisible child 3 with material 12, and mesh 4 with the transparent material 11, which
  it shares with mesh 2. Material 10 has a \<open>renderStage\<close> field holding 0 and no
  \<open>uniforms\<close>. Every material tests depth; 10 and 11 do not write it.
\<close>

definition demo_material :: material where
  "demo_material =
     \<lparr>transparent = JBool False, wboitEnabled = JUndefined, blending = JNum 1,
      blendEquation = AddEquation, blendSrc = SrcAlphaFactor, blendDst = OneMinusSrcAlphaFactor,
      depthTest = JBool True, depthWrite = JBool True, renderStage = JUndefined,
      uniforms = None\<rparr>"

definition demo_mats :: "nat \<Rightarrow> material" where
  "demo_mats =
     (\<lambda>m. demo_material)
       (10 := demo_material\<lparr>transparent := JBool True, wboitEnabled := JBool True,
               depthWrite := JBool False, renderStage := JNum 0\<rparr>,
        11 := demo_material\<lparr>transparent := JBool True, depthWrite := JBool False\<rparr>)"

definition demo_objs :: "nat \<Rightarrow> object3d" where
  "demo_objs =
     (\<lambda>ob. \<lparr>visible = JBool True, material_of = NoMaterial\<rparr>)
       (1 := \<lparr>visible = JBool True, material_of = OneMaterial 10\<rparr>,
        2 := \<lparr>visible = JBool True, material_of = MaterialArray [11, 12]\<rparr>,
        3 := \<lparr>visible = JBool False, material_of = OneMaterial 12\<rparr>,
        4 := \<lparr>visible = JBool True, material_of = OneMaterial 11\<rparr>)"

definition demo_graph :: node where
  "demo_graph = Node 0 [Node 1 [], Node 2 [Node 3 []], Node 4 []]"

definition demo_frame :: frame where
  "demo_frame =
     \<lparr>objs = demo_objs, mats = demo_mats, overrideMaterial = JNull,
      cache = [], blendingCache = [], blendEquationCache = [], blendSrcCache = [],
      blendDstCache = [], testCache = [], writeCache = [],
      opaqueMeshes = [], transparentMeshes = [], wboitMeshes = []\<rparr>"

definition demo_stages :: wboit_stages where
  "demo_stages = \<lparr>Normal = 0, Acummulation = 1, Revealage = 2\<rparr>"

definition demo_renderer :: renderer where
  "demo_renderer =
     \<lparr>autoClear = JBool True, rClearColor = JNum 0, rClearAlpha = JNum 1,
      renderTarget = NullTarget, outputColorSpace = SRGBColorSpace,
      sizeWidth = Finite 800, sizeHeight = Finite 600, pixelRatio = Finite 2, calls = []\<rparr>"

definition demo_pass :: pass where
  "demo_pass =
     \<lparr>scene = SceneObject (JBool True) demo_graph, camera = JObj 0,
      clearColor = JUndefined, clearAlpha = JNum 0,
      clear = False, clearDepth = False, needsSwap = False, oldClearColor = JNum 0,
      opaqueGamma = JNum 0, transparentGamma = JNum 0, compositeGamma = JNum 0,
      tAccumulation = None, tRevealage = None,
      baseTarget =
        \<lparr>width = Finite 1600, height = Finite 1200, texType = Some FloatType,
         depthBuffer = True\<rparr>,
      accumulationTarget =
        \<lparr>width = Finite 1600, height = Finite 1200, texType = Some FloatType,
         depthBuffer = False\<rparr>\<rparr>"

text \<open>
  Four graphics contexts. On \<open>demo_gl\<close> the float target is complete but reads back
  black, the half-float target reads back the fill colour (\<open>15360\<close> is the half-float
  1.0) but is incomplete, and the 8-bit round trip succeeds. On \<open>demo_gl_float\<close> the
  float round trip succeeds, with an alpha of \<open>0.005\<close>. On \<open>demo_gl_half\<close> the float
  target reads back an alpha of \<open>0.02\<close>, outside the tolerance, and the half-float
  round trip succeeds. On \<open>demo_gl_none\<close> no round trip succeeds: the 8-bit target reads
  back grey.
\<close>

definition demo_gl :: gl_context where
  "demo_gl =
     (\<lambda>i. \<lparr>framebufferStatus = 36053, red = 0, green = 0, blue = 0, alpha = 0\<rparr>)
       (1 := \<lparr>framebufferStatus = 36054, red = 15360, green = 15360, blue = 15360, alpha = 0\<rparr>,
        2 := \<lparr>framebufferStatus = 36053, red = 255, green = 255, blue = 255, alpha = 0\<rparr>)"

definition demo_gl_float :: gl_context where
  "demo_gl_float =
     (\<lambda>i. \<lparr>framebufferStatus = 36053, red = 1, green = 1, blue = 1, alpha = 1 / 200\<rparr>)"

definition demo_gl_half :: gl_context where
  "demo_gl_half =
     (\<lambda>i. \<lparr>framebufferStatus = 36053, red = 1, green = 1, blue = 1, alpha = 1 / 50\<rparr>)
       (1 := \<lparr>framebufferStatus = 36053, red = 15360, green = 15360, blue = 15360, alpha = 0\<rparr>)"

definition demo_gl_none :: gl_context where
  "demo_gl_none =
     (\<lambda>i. \<lparr>framebufferStatus = 36053, red = 0, green = 0, blue = 0, alpha = 0\<rparr>)
       (1 := \<lparr>framebufferStatus = 36054, red = 15360, green = 15360, blue = 15360, alpha = 0\<rparr>,
        2 := \<lparr>framebufferStatus = 36053, red = 128, green = 128, blue = 128, alpha = 0\<rparr>)"

section \<open>Properties\<close>

subsection \<open>Values and maps\<close>

lemma truthy_boolean: "truthy (JBool b) \<longleftrightarrow> JBool b = JBool True"
  by simp

lemma truthy_js_and: "truthy (js_and a b) = (truthy a \<and> truthy b)"
  by (simp add: js_and_def)

lemma map_get_set: "map_get (map_set k v al) k' = (if k' = k then v else map_get al k')"
  by (induction al) auto

lemma map_set_keys: "fst ` set (map_set k v al) = insert k (fst ` set al)"
  by (induction al) auto

subsection \<open>Classification\<close>

lemma flags_loop_frame:
  "objs (snd (snd (flags_loop ms a b f))) = objs f \<and>
   mats (snd (snd (flags_loop ms a b f))) = mats f \<and>
   overrideMaterial (snd (snd (flags_loop ms a b f))) = overrideMaterial f \<and>
   cache (snd (snd (flags_loop ms a b f))) = cache f \<and>
   blendingCache (snd (snd (flags_loop ms a b f))) = blendingCache f \<and>
   blendEquationCache (snd (snd (flags_loop ms a b f))) = blendEquationCache f \<and>
   blendSrcCache (snd (snd (flags_loop ms a b f))) = blendSrcCache f \<and>
   blendDstCache (snd (snd (flags_loop ms a b f))) = blendDstCache f \<and>
   opaqueMeshes (snd (snd (flags_loop ms a b f))) = opaqueMeshes f \<and>
   transparentMeshes (snd (snd (flags_loop ms a b f))) = transparentMeshes f \<and>
   wboitMeshes (snd (snd (flags_loop ms a b f))) = wboitMeshes f"
  by (induction ms arbitrary: a b f) (simp_all add: Let_def)

lemma set_depth_frame:
  "objs (set_depth t w ms f) = objs f \<and>
   overrideMaterial (set_depth t w ms f) = overrideMaterial f \<and>
   cache (set_depth t w ms f) = cache f \<and>
   blendingCache (set_depth t w ms f) = blendingCache f \<and>
   blendEquationCache (set_depth t w ms f) = blendEquationCache f \<and>
   blendSrcCache (set_depth t w ms f) = blendSrcCache f \<and>
   blendDstCache (set_depth t w ms f) = blendDstCache f \<and>
   testCache (set_depth t w ms f) = testCache f \<and>
   writeCache (set_depth t w ms f) = writeCache f \<and>
   opaqueMeshes (set_depth t w ms f) = opaqueMeshes f \<and>
   transparentMeshes (set_depth t w ms f) = transparentMeshes f \<and>
   wboitMeshes (set_depth t w ms f) = wboitMeshes f"
  by (induction ms arbitrary: f) simp_all

lemma set_depth_mats:
  "mats (set_depth t w ms f) m =
     (if m \<in> set ms then (mats f m)\<lparr>depthTest := t, depthWrite := w\<rparr> else mats f m)"
  by (induction ms arbitrary: f) auto

lemma cache_blend_frame:
  "objs (cache_blend ms f) = objs f \<and>
   mats (cache_blend ms f) = mats f \<and>
   overrideMaterial (cache_blend ms f) = overrideMaterial f \<and>
   cache (cache_blend ms f) = cache f \<and>
   testCache (cache_blend ms f) = testCache f \<and>
   writeCache (cache_blend ms f) = writeCache f \<and>
   opaqueMeshes (cache_blend ms f) = opaqueMeshes f \<and>
   transparentMeshes (cache_blend ms f) = transparentMeshes f \<and>
   wboitMeshes (cache_blend ms f) = wboitMeshes f"
  by (induction ms arbitrary: f) simp_all

lemma flags_loop_transparent:
  "truthy (fst (flags_loop ms a b f)) =
     (truthy a \<and> (\<forall>m \<in> set ms. truthy (transparent (mats f m))))"
  by (induction ms arbitrary: a b f) (auto simp: Let_def truthy_js_and)

lemma flags_loop_wboit:
  "truthy (fst (snd (flags_loop ms a b f))) =
     (truthy b \<and> (ms \<noteq> [] \<longrightarrow> truthy a) \<and>
      (\<forall>m \<in> set ms. truthy (transparent (mats f m)) \<and> truthy (wboitEnabled (mats f m))))"
  by (induction ms arbitrary: a b f) (auto simp: Let_def truthy_js_and)

lemma visit_groups:
  "opaqueMeshes (visit ob f) =
     opaqueMeshes f @ (if classified f ob \<and> \<not> all_transparent f ob then [ob] else []) \<and>
   transparentMeshes (visit ob f) =
     transparentMeshes f @
       (if classified f ob \<and> all_transparent f ob \<and> \<not> all_wboit f ob then [ob] else []) \<and>
   wboitMeshes (visit ob f) =
     wboitMeshes f @ (if classified f ob \<and> all_wboit f ob then [ob] else [])"
proof -
  obtain a b f1 where fl: "flags_loop (materials (material_of (objs f ob))) (JBool True) (JBool True) f = (a, b, f1)"
    by (cases "flags_loop (materials (material_of (objs f ob))) (JBool True) (JBool True) f") auto
  have a: "truthy a = all_transparent f ob"
    using flags_loop_transparent [of "materials (material_of (objs f ob))" "JBool True" "JBool True" f] fl
    by (simp add: all_transparent_def)
  have b: "truthy b = all_wboit f ob"
    using flags_loop_wboit [of "materials (material_of (objs f ob))" "JBool True" "JBool True" f] fl
    by (simp add: all_wboit_def)
  have f1: "opaqueMeshes f1 = opaqueMeshes f" "transparentMeshes f1 = transparentMeshes f"
    "wboitMeshes f1 = wboitMeshes f"
    using flags_loop_frame [of "materials (material_of (objs f ob))" "JBool True" "JBool True" f] fl
    by simp_all
  have wt: "all_wboit f ob \<Longrightarrow> all_transparent f ob"
    by (simp add: all_wboit_def all_transparent_def)
  show ?thesis
    using wt by (auto simp: visit_def fl a b f1 classified_def Let_def set_depth_frame cache_blend_frame)
qed

lemma visit_objs: "objs (visit ob f) = objs f"
proof -
  obtain a b f1 where fl: "flags_loop (materials (material_of (objs f ob))) (JBool True) (JBool True) f = (a, b, f1)"
    by (cases "flags_loop (materials (material_of (objs f ob))) (JBool True) (JBool True) f") auto
  have f1: "objs f1 = objs f"
    using flags_loop_frame [of "materials (material_of (objs f ob))" "JBool True" "JBool True" f] fl
    by simp
  show ?thesis
    by (simp add: visit_def fl f1 Let_def set_depth_frame cache_blend_frame)
qed

lemma visit_flags:
  "transparent (mats (visit ob f) m) = transparent (mats f m) \<and>
   wboitEnabled (mats (visit ob f) m) = wboitEnabled (mats f m)"
proof -
  obtain a b f1 where fl: "flags_loop (materials (material_of (objs f ob))) (JBool True) (JBool True) f = (a, b, f1)"
    by (cases "flags_loop (materials (material_of (objs f ob))) (JBool True) (JBool True) f") auto
  have f1: "mats f1 = mats f"
    using flags_loop_frame [of "materials (material_of (objs f ob))" "JBool True" "JBool True" f] fl
    by simp
  show ?thesis
    by (simp add: visit_def fl f1 Let_def set_depth_mats cache_blend_frame)
qed

lemma visit_pred:
  "classified (visit ob f) = classified f"
  "all_transparent (visit ob f) = all_transparent f"
  "all_wboit (visit ob f) = all_wboit f"
  by (simp_all add: fun_eq_iff classified_def all_transparent_def all_wboit_def visit_objs visit_flags)

lemma visit_all_groups:
  "opaqueMeshes (visit_all obs f) =
     opaqueMeshes f @ filter (\<lambda>ob. classified f ob \<and> \<not> all_transparent f ob) obs \<and>
   transparentMeshes (visit_all obs f) =
     transparentMeshes f @
       filter (\<lambda>ob. classified f ob \<and> all_transparent f ob \<and> \<not> all_wboit f ob) obs \<and>
   wboitMeshes (visit_all obs f) =
     wboitMeshes f @ filter (\<lambda>ob. classified f ob \<and> all_wboit f ob) obs"
  by (induction obs arbitrary: f) (simp_all add: visit_groups visit_pred)

lemma visit_all_objs: "objs (visit_all obs f) = objs f"
  by (induction obs arbitrary: f) (simp_all add: visit_objs)

lemma visit_all_flags:
  "transparent (mats (visit_all obs f) m) = transparent (mats f m) \<and>
   wboitEnabled (mats (visit_all obs f) m) = wboitEnabled (mats f m)"
  by (induction obs arbitrary: f) (simp_all add: visit_flags)

lemma visit_cache:
  "cache (visit ob f) =
     (if classified f ob then map_set ob (visible (objs f ob)) (cache f) else cache f)"
proof -
  obtain a b f1 where fl: "flags_loop (materials (material_of (objs f ob))) (JBool True) (JBool True) f = (a, b, f1)"
    by (cases "flags_loop (materials (material_of (objs f ob))) (JBool True) (JBool True) f") auto
  have f1: "cache f1 = cache f" "objs f1 = objs f"
    using flags_loop_frame [of "materials (material_of (objs f ob))" "JBool True" "JBool True" f] fl
    by simp_all
  show ?thesis
    by (simp add: visit_def fl f1 classified_def Let_def set_depth_frame cache_blend_frame)
qed

lemma visit_all_cache_keys:
  "fst ` set (cache (visit_all obs f)) = fst ` set (cache f) \<union> {ob \<in> set obs. classified f ob}"
  by (induction obs arbitrary: f) (auto simp: visit_cache visit_pred map_set_keys)

lemmas demo_defs = demo_frame_def demo_objs_def demo_mats_def demo_material_def demo_graph_def

lemma demo_groups:
  "opaqueMeshes (gatherMeshes demo_graph demo_frame) = [2]"
  "transparentMeshes (gatherMeshes demo_graph demo_frame) = [4]"
  "wboitMeshes (gatherMeshes demo_graph demo_frame) = [1]"
  unfolding gatherMeshes_def
  by (simp_all only: visit_all_groups)
     (simp_all add: classified_def all_transparent_def all_wboit_def demo_defs)

text \<open>
  Claim C4. A visible object of the scene graph that has a material is put in the WBOIT
  group iff every one of its materials is transparent and WBOIT-enabled; in the
  transparent group iff that fails and every material is transparent; in the opaque
  group iff some material is not transparent (so a mix of transparent and opaque
  materials is opaque). The flags are read as the pass reads them, by truthiness, which
  on a boolean flag is equality with \<open>true\<close> (lemma \<open>truthy_boolean\<close>).
\<close>

theorem classification:
  assumes "opaqueMeshes f = []" "transparentMeshes f = []" "wboitMeshes f = []"
      and "ob \<in> set (traverse g)"
      and "has_material (material_of (objs f ob))"
      and "truthy (visible (objs f ob))"
  shows "(ob \<in> set (wboitMeshes (gatherMeshes g f)) \<longleftrightarrow>
            (\<forall>m \<in> set (materials (material_of (objs f ob))).
               truthy (transparent (mats f m)) \<and> truthy (wboitEnabled (mats f m)))) \<and>
         (ob \<in> set (transparentMeshes (gatherMeshes g f)) \<longleftrightarrow>
            \<not> (\<forall>m \<in> set (materials (material_of (objs f ob))).
                 truthy (transparent (mats f m)) \<and> truthy (wboitEnabled (mats f m))) \<and>
            (\<forall>m \<in> set (materials (material_of (objs f ob))). truthy (transparent (mats f m)))) \<and>
         (ob \<in> set (opaqueMeshes (gatherMeshes g f)) \<longleftrightarrow>
            \<not> (\<forall>m \<in> set (materials (material_of (objs f ob))). truthy (transparent (mats f m))))"
  using assms
  by (auto simp: gatherMeshes_def visit_all_groups classified_def all_transparent_def all_wboit_def)

text \<open>
  Mesh 2 of the sample scene has a transparent and an opaque material: it is opaque.
\<close>

theorem classification_witness:
  "opaqueMeshes demo_frame = [] \<and> transparentMeshes demo_frame = [] \<and>
   wboitMeshes demo_frame = [] \<and> 2 \<in> set (traverse demo_graph) \<and>
   has_material (material_of (objs demo_frame 2)) \<and> truthy (visible (objs demo_frame 2)) \<and>
   truthy (transparent (mats demo_frame 11)) \<and> \<not> truthy (transparent (mats demo_frame 12)) \<and>
   2 \<in> set (opaqueMeshes (gatherMeshes demo_graph demo_frame)) \<and>
   2 \<notin> set (transparentMeshes (gatherMeshes demo_graph demo_frame)) \<and>
   2 \<notin> set (wboitMeshes (gatherMeshes demo_graph demo_frame))"
proof -
  have h: "opaqueMeshes demo_frame = []" "transparentMeshes demo_frame = []"
    "wboitMeshes demo_frame = []" "2 \<in> set (traverse demo_graph)"
    "has_material (material_of (objs demo_frame 2))" "truthy (visible (objs demo_frame 2))"
    by (simp_all add: demo_defs)
  have m: "materials (material_of (objs demo_frame 2)) = [11, 12]"
    "truthy (transparent (mats demo_frame 11))" "\<not> truthy (transparent (mats demo_frame 12))"
    by (simp_all add: demo_defs)
  show ?thesis
    using classification [OF h] h m by simp
qed

text \<open>
  Claim C3, amended. The three groups are pairwise disjoint, and together they hold
  exactly the objects of the scene graph that have a material and are visible: each
  such object is in exactly one group.
\<close>

theorem groups_partition:
  assumes "opaqueMeshes f = []" "transparentMeshes f = []" "wboitMeshes f = []"
  shows "set (opaqueMeshes (gatherMeshes g f)) \<inter> set (transparentMeshes (gatherMeshes g f)) = {} \<and>
         set (opaqueMeshes (gatherMeshes g f)) \<inter> set (wboitMeshes (gatherMeshes g f)) = {} \<and>
         set (transparentMeshes (gatherMeshes g f)) \<inter> set (wboitMeshes (gatherMeshes g f)) = {} \<and>
         set (opaqueMeshes (gatherMeshes g f)) \<union> set (transparentMeshes (gatherMeshes g f)) \<union>
           set (wboitMeshes (gatherMeshes g f)) =
           {ob \<in> set (traverse g).
              has_material (material_of (objs f ob)) \<and> truthy (visible (objs f ob))} \<and>
         (\<forall>ob \<in> set (traverse g).
            has_material (material_of (objs f ob)) \<and> truthy (visible (objs f ob)) \<longrightarrow>
              (ob \<in> set (opaqueMeshes (gatherMeshes g f)) \<and>
               ob \<notin> set (transparentMeshes (gatherMeshes g f)) \<and>
               ob \<notin> set (wboitMeshes (gatherMeshes g f))) \<or>
              (ob \<notin> set (opaqueMeshes (gatherMeshes g f)) \<and>
               ob \<in> set (transparentMeshes (gatherMeshes g f)) \<and>
               ob \<notin> set (wboitMeshes (gatherMeshes g f))) \<or>
              (ob \<notin> set (opaqueMeshes (gatherMeshes g f)) \<and>
               ob \<notin> set (transparentMeshes (gatherMeshes g f)) \<and>
               ob \<in> set (wboitMeshes (gatherMeshes g f))))"
proof -
  have wt: "\<And>ob. all_wboit f ob \<Longrightarrow> all_transparent f ob"
    by (simp add: all_wboit_def all_transparent_def)
  have groups:
    "set (opaqueMeshes (gatherMeshes g f)) =
       {ob \<in> set (traverse g). classified f ob \<and> \<not> all_transparent f ob}"
    "set (transparentMeshes (gatherMeshes g f)) =
       {ob \<in> set (traverse g). classified f ob \<and> all_transparent f ob \<and> \<not> all_wboit f ob}"
    "set (wboitMeshes (gatherMeshes g f)) =
       {ob \<in> set (traverse g). classified f ob \<and> all_wboit f ob}"
    using assms by (simp_all add: gatherMeshes_def visit_all_groups)
  show ?thesis
    unfolding groups using wt by (auto simp: classified_def)
qed

text \<open>
  The partition of the sample scene.
\<close>

theorem groups_partition_witness:
  "opaqueMeshes demo_frame = [] \<and> transparentMeshes demo_frame = [] \<and>
   wboitMeshes demo_frame = [] \<and>
   set (opaqueMeshes (gatherMeshes demo_graph demo_frame)) \<union>
     set (transparentMeshes (gatherMeshes demo_graph demo_frame)) \<union>
     set (wboitMeshes (gatherMeshes demo_graph demo_frame)) =
     {ob \<in> set (traverse demo_graph).
        has_material (material_of (objs demo_frame ob)) \<and> truthy (visible (objs demo_frame ob))} \<and>
   4 \<in> set (traverse demo_graph) \<and> has_material (material_of (objs demo_frame 4)) \<and>
   truthy (visible (objs demo_frame 4)) \<and>
   4 \<in> set (transparentMeshes (gatherMeshes demo_graph demo_frame))"
proof -
  have h: "opaqueMeshes demo_frame = []" "transparentMeshes demo_frame = []"
    "wboitMeshes demo_frame = []"
    by (simp_all add: demo_defs)
  have m: "4 \<in> set (traverse demo_graph)" "has_material (material_of (objs demo_frame 4))"
    "truthy (visible (objs demo_frame 4))"
    by (simp_all add: demo_defs)
  show ?thesis
    using groups_partition [OF h, of demo_graph] h m by (simp add: demo_groups)
qed

text \<open>
  Claim C3 as stated fails: in the sample scene object 3 has a material and is in the
  graph, but it is not visible, and the classification puts it in no group.
\<close>

theorem groups_partition_counterexample:
  "3 \<in> set (traverse demo_graph) \<and>
   has_material (material_of (objs demo_frame 3)) \<and>
   3 \<notin> set (opaqueMeshes (gatherMeshes demo_graph demo_frame)) \<union>
       set (transparentMeshes (gatherMeshes demo_graph demo_frame)) \<union>
       set (wboitMeshes (gatherMeshes demo_graph demo_frame))"
  by (simp add: demo_groups) (simp add: demo_defs)

subsection \<open>The blend snapshot\<close>

lemma cache_blend_get:
  "map_get (blendingCache (cache_blend ms f)) k =
     (if k \<in> set ms then blending (mats f k) else map_get (blendingCache f) k) \<and>
   map_get (blendEquationCache (cache_blend ms f)) k =
     (if k \<in> set ms then blendEquation (mats f k) else map_get (blendEquationCache f) k) \<and>
   map_get (blendSrcCache (cache_blend ms f)) k =
     (if k \<in> set ms then blendSrc (mats f k) else map_get (blendSrcCache f) k) \<and>
   map_get (blendDstCache (cache_blend ms f)) k =
     (if k \<in> set ms then blendDst (mats f k) else map_get (blendDstCache f) k)"
  by (induction ms arbitrary: f) (auto simp: map_get_set)

lemma visit_blend_fields:
  "blending (mats (visit ob f) m) = blending (mats f m) \<and>
   blendEquation (mats (visit ob f) m) = blendEquation (mats f m) \<and>
   blendSrc (mats (visit ob f) m) = blendSrc (mats f m) \<and>
   blendDst (mats (visit ob f) m) = blendDst (mats f m)"
proof -
  obtain a b f1 where fl: "flags_loop (materials (material_of (objs f ob))) (JBool True) (JBool True) f = (a, b, f1)"
    by (cases "flags_loop (materials (material_of (objs f ob))) (JBool True) (JBool True) f") auto
  have f1: "mats f1 = mats f"
    using flags_loop_frame [of "materials (material_of (objs f ob))" "JBool True" "JBool True" f] fl
    by simp
  show ?thesis
    by (simp add: visit_def fl f1 Let_def set_depth_mats cache_blend_frame)
qed

lemma visit_blend_caches:
  "map_get (blendingCache (visit ob f)) k =
     (if classified f ob \<and> all_wboit f ob \<and> k \<in> set (materials (material_of (objs f ob)))
      then blending (mats f k) else map_get (blendingCache f) k) \<and>
   map_get (blendEquationCache (visit ob f)) k =
     (if classified f ob \<and> all_wboit f ob \<and> k \<in> set (materials (material_of (objs f ob)))
      then blendEquation (mats f k) else map_get (blendEquationCache f) k) \<and>
   map_get (blendSrcCache (visit ob f)) k =
     (if classified f ob \<and> all_wboit f ob \<and> k \<in> set (materials (material_of (objs f ob)))
      then blendSrc (mats f k) else map_get (blendSrcCache f) k) \<and>
   map_get (blendDstCache (visit ob f)) k =
     (if classified f ob \<and> all_wboit f ob \<and> k \<in> set (materials (material_of (objs f ob)))
      then blendDst (mats f k) else map_get (blendDstCache f) k)"
proof -
  obtain a b f1 where fl: "flags_loop (materials (material_of (objs f ob))) (JBool True) (JBool True) f = (a, b, f1)"
    by (cases "flags_loop (materials (material_of (objs f ob))) (JBool True) (JBool True) f") auto
  have b: "truthy b = all_wboit f ob"
    using flags_loop_wboit [of "materials (material_of (objs f ob))" "JBool True" "JBool True" f] fl
    by (simp add: all_wboit_def)
  have f1: "mats f1 = mats f" "blendingCache f1 = blendingCache f"
    "blendEquationCache f1 = blendEquationCache f" "blendSrcCache f1 = blendSrcCache f"
    "blendDstCache f1 = blendDstCache f"
    using flags_loop_frame [of "materials (material_of (objs f ob))" "JBool True" "JBool True" f] fl
    by simp_all
  show ?thesis
    by (simp add: visit_def fl b f1 classified_def Let_def set_depth_frame cache_blend_get)
qed

lemma visit_snapshot_ok: "snapshot_ok f0 f \<Longrightarrow> snapshot_ok f0 (visit ob f)"
  unfolding snapshot_ok_def
  by (auto simp: visit_blend_fields visit_blend_caches visit_groups visit_objs)

lemma visit_all_snapshot_ok: "snapshot_ok f0 f \<Longrightarrow> snapshot_ok f0 (visit_all obs f)"
  by (induction obs arbitrary: f) (simp_all add: visit_snapshot_ok)

lemma gatherMeshes_snapshot:
  assumes "wboitMeshes f0 = []"
      and "ob \<in> set (wboitMeshes (gatherMeshes g f0))"
      and "m \<in> set (materials (material_of (objs f0 ob)))"
  shows "map_get (blendingCache (gatherMeshes g f0)) m = blending (mats f0 m)"
    and "map_get (blendEquationCache (gatherMeshes g f0)) m = blendEquation (mats f0 m)"
    and "map_get (blendSrcCache (gatherMeshes g f0)) m = blendSrc (mats f0 m)"
    and "map_get (blendDstCache (gatherMeshes g f0)) m = blendDst (mats f0 m)"
proof -
  have "snapshot_ok f0 f0" using assms(1) by (simp add: snapshot_ok_def)
  then have "snapshot_ok f0 (gatherMeshes g f0)"
    by (simp add: gatherMeshes_def visit_all_snapshot_ok)
  moreover have "objs (gatherMeshes g f0) = objs f0"
    by (simp add: gatherMeshes_def visit_all_objs)
  ultimately show "map_get (blendingCache (gatherMeshes g f0)) m = blending (mats f0 m)"
    and "map_get (blendEquationCache (gatherMeshes g f0)) m = blendEquation (mats f0 m)"
    and "map_get (blendSrcCache (gatherMeshes g f0)) m = blendSrc (mats f0 m)"
    and "map_get (blendDstCache (gatherMeshes g f0)) m = blendDst (mats f0 m)"
    using assms(2,3) unfolding snapshot_ok_def by auto
qed

lemma set_visible_frame:
  "mats (set_visible v obs f) = mats f \<and>
   blendingCache (set_visible v obs f) = blendingCache f \<and>
   blendEquationCache (set_visible v obs f) = blendEquationCache f \<and>
   blendSrcCache (set_visible v obs f) = blendSrcCache f \<and>
   blendDstCache (set_visible v obs f) = blendDstCache f \<and>
   cache (set_visible v obs f) = cache f \<and>
   testCache (set_visible v obs f) = testCache f \<and>
   writeCache (set_visible v obs f) = writeCache f \<and>
   opaqueMeshes (set_visible v obs f) = opaqueMeshes f \<and>
   transparentMeshes (set_visible v obs f) = transparentMeshes f \<and>
   wboitMeshes (set_visible v obs f) = wboitMeshes f \<and>
   material_of (objs (set_visible v obs f) ob) = material_of (objs f ob)"
  by (induction obs arbitrary: f) simp_all

lemma changeVisible_frame:
  "mats (changeVisible a b c f) = mats f \<and>
   blendingCache (changeVisible a b c f) = blendingCache f \<and>
   blendEquationCache (changeVisible a b c f) = blendEquationCache f \<and>
   blendSrcCache (changeVisible a b c f) = blendSrcCache f \<and>
   blendDstCache (changeVisible a b c f) = blendDstCache f \<and>
   wboitMeshes (changeVisible a b c f) = wboitMeshes f \<and>
   cache (changeVisible a b c f) = cache f \<and>
   testCache (changeVisible a b c f) = testCache f \<and>
   writeCache (changeVisible a b c f) = writeCache f \<and>
   material_of (objs (changeVisible a b c f) ob) = material_of (objs f ob)"
  by (simp add: changeVisible_def Let_def set_visible_frame)

subsection \<open>Stage configuration\<close>

lemma prepare_material_frame:
  "objs (prepare_material W stage m f) = objs f \<and>
   blendingCache (prepare_material W stage m f) = blendingCache f \<and>
   blendEquationCache (prepare_material W stage m f) = blendEquationCache f \<and>
   blendSrcCache (prepare_material W stage m f) = blendSrcCache f \<and>
   blendDstCache (prepare_material W stage m f) = blendDstCache f \<and>
   wboitMeshes (prepare_material W stage m f) = wboitMeshes f \<and>
   cache (prepare_material W stage m f) = cache f \<and>
   testCache (prepare_material W stage m f) = testCache f \<and>
   writeCache (prepare_material W stage m f) = writeCache f"
  by (simp add: prepare_material_def set_stage_blend_def set_stage_channel_def
      split: option.splits)

lemma prepare_material_other:
  "m' \<noteq> m \<Longrightarrow> mats (prepare_material W stage m f) m' = mats f m'"
  by (simp add: prepare_material_def set_stage_blend_def set_stage_channel_def
      split: option.splits)

lemma prepare_material_flags:
  "wboitEnabled (mats (prepare_material W stage m f) m') = wboitEnabled (mats f m') \<and>
   transparent (mats (prepare_material W stage m f) m') = transparent (mats f m')"
  by (simp add: prepare_material_def set_stage_blend_def set_stage_channel_def
      split: option.splits)

lemma prepare_material_skip:
  "wboitEnabled (mats f m) \<noteq> JBool True \<or> transparent (mats f m) \<noteq> JBool True \<Longrightarrow>
   prepare_material W stage m f = f"
  by (simp add: prepare_material_def)

text \<open>What the \<open>switch\<close> leaves in the six fields of a material it configures.\<close>

lemma prepare_material_fields:
  assumes "wboitEnabled (mats f m) = JBool True" "transparent (mats f m) = JBool True"
  shows "blending (mats (prepare_material W stage m f) m) =
           (if stage = Acummulation W \<or> stage = Revealage W then CustomBlending
            else map_get (blendingCache f) m)"
    and "blendEquation (mats (prepare_material W stage m f) m) =
           (if stage = Acummulation W \<or> stage = Revealage W then AddEquation
            else map_get (blendEquationCache f) m)"
    and "blendSrc (mats (prepare_material W stage m f) m) =
           (if stage = Acummulation W then OneFactor
            else if stage = Revealage W then ZeroFactor
            else map_get (blendSrcCache f) m)"
    and "blendDst (mats (prepare_material W stage m f) m) =
           (if stage = Acummulation W then OneFactor
            else if stage = Revealage W then OneMinusSrcAlphaFactor
            else map_get (blendDstCache f) m)"
    and "depthWrite (mats (prepare_material W stage m f) m) =
           (if stage = Acummulation W \<or> stage = Revealage W then JBool False
            else depthWrite (mats f m))"
    and "depthTest (mats (prepare_material W stage m f) m) =
           (if stage = Acummulation W \<or> stage = Revealage W then JBool True
            else depthTest (mats f m))"
  using assms
  by (simp_all add: prepare_material_def set_stage_blend_def set_stage_channel_def
      split: option.splits)

lemma configured_caches:
  "blendingCache f' = blendingCache f \<Longrightarrow> blendEquationCache f' = blendEquationCache f \<Longrightarrow>
   blendSrcCache f' = blendSrcCache f \<Longrightarrow> blendDstCache f' = blendDstCache f \<Longrightarrow>
   configured W stage f' m mt = configured W stage f m mt"
  by (simp add: configured_def)

lemma prepare_material_configured:
  assumes "wboitEnabled (mats f m) = JBool True" "transparent (mats f m) = JBool True"
  shows "configured W stage f m (mats (prepare_material W stage m f) m)"
  using prepare_material_fields [OF assms, of W stage]
  by (auto simp: configured_def)

lemma prepare_material_keeps:
  assumes "configured W stage f m (mats f m)"
  shows "configured W stage f m (mats (prepare_material W stage m' f) m)"
proof (cases "m' = m")
  case False
  then show ?thesis using assms by (simp add: prepare_material_other)
next
  case True
  show ?thesis
  proof (cases "wboitEnabled (mats f m) = JBool True \<and> transparent (mats f m) = JBool True")
    case True
    then show ?thesis using \<open>m' = m\<close> prepare_material_configured by simp
  next
    case False
    then have "prepare_material W stage m f = f" by (simp add: prepare_material_def)
    then show ?thesis using assms \<open>m' = m\<close> by simp
  qed
qed

lemma prepare_material_step:
  assumes "wboitEnabled (mats f m) = JBool True" "transparent (mats f m) = JBool True"
      and "m' = m \<or> configured W stage f m (mats f m)"
  shows "configured W stage (prepare_material W stage m' f) m
           (mats (prepare_material W stage m' f) m)"
proof -
  have "configured W stage f m (mats (prepare_material W stage m' f) m)"
  proof (cases "m' = m")
    case True
    then show ?thesis using prepare_material_configured [OF assms(1,2)] by simp
  next
    case False
    then show ?thesis using assms(3) prepare_material_keeps by simp
  qed
  then show ?thesis
    using configured_caches [of "prepare_material W stage m' f" f W stage m]
    by (simp add: prepare_material_frame)
qed

lemma prepare_materials_frame:
  "objs (prepare_materials W stage ms f) = objs f \<and>
   blendingCache (prepare_materials W stage ms f) = blendingCache f \<and>
   blendEquationCache (prepare_materials W stage ms f) = blendEquationCache f \<and>
   blendSrcCache (prepare_materials W stage ms f) = blendSrcCache f \<and>
   blendDstCache (prepare_materials W stage ms f) = blendDstCache f \<and>
   wboitMeshes (prepare_materials W stage ms f) = wboitMeshes f \<and>
   cache (prepare_materials W stage ms f) = cache f \<and>
   testCache (prepare_materials W stage ms f) = testCache f \<and>
   writeCache (prepare_materials W stage ms f) = writeCache f"
  by (induction ms arbitrary: f) (simp_all add: prepare_material_frame)

lemma prepare_materials_flags:
  "wboitEnabled (mats (prepare_materials W stage ms f) m) = wboitEnabled (mats f m) \<and>
   transparent (mats (prepare_materials W stage ms f) m) = transparent (mats f m)"
  by (induction ms arbitrary: f) (simp_all add: prepare_material_flags)

lemma prepare_materials_configured:
  assumes "wboitEnabled (mats f m) = JBool True" "transparent (mats f m) = JBool True"
      and "m \<in> set ms \<or> configured W stage f m (mats f m)"
  shows "configured W stage f m (mats (prepare_materials W stage ms f) m)"
  using assms
proof (induction ms arbitrary: f)
  case Nil
  then show ?case by simp
next
  case (Cons m' ms)
  let ?f = "prepare_material W stage m' f"
  have flags: "wboitEnabled (mats ?f m) = JBool True" "transparent (mats ?f m) = JBool True"
    using Cons.prems by (simp_all add: prepare_material_flags)
  have "m \<in> set ms \<or> configured W stage ?f m (mats ?f m)"
    using Cons.prems prepare_material_step [of f m m' W stage] by auto
  then have "configured W stage ?f m (mats (prepare_materials W stage ms ?f) m)"
    using Cons.IH [OF flags] by simp
  then show ?case
    using configured_caches [of "prepare_material W stage m' f" f W stage m]
    by (simp add: prepare_material_frame)
qed

lemma prepare_meshes_frame:
  "objs (prepare_meshes W stage obs f) = objs f \<and>
   blendingCache (prepare_meshes W stage obs f) = blendingCache f \<and>
   blendEquationCache (prepare_meshes W stage obs f) = blendEquationCache f \<and>
   blendSrcCache (prepare_meshes W stage obs f) = blendSrcCache f \<and>
   blendDstCache (prepare_meshes W stage obs f) = blendDstCache f \<and>
   wboitMeshes (prepare_meshes W stage obs f) = wboitMeshes f \<and>
   cache (prepare_meshes W stage obs f) = cache f \<and>
   testCache (prepare_meshes W stage obs f) = testCache f \<and>
   writeCache (prepare_meshes W stage obs f) = writeCache f"
  by (induction obs arbitrary: f) (simp_all add: prepare_materials_frame)

lemma prepare_meshes_flags:
  "wboitEnabled (mats (prepare_meshes W stage obs f) m) = wboitEnabled (mats f m) \<and>
   transparent (mats (prepare_meshes W stage obs f) m) = transparent (mats f m)"
  by (induction obs arbitrary: f) (simp_all add: prepare_materials_flags prepare_materials_frame)

lemma prepare_meshes_configured:
  assumes "wboitEnabled (mats f m) = JBool True" "transparent (mats f m) = JBool True"
      and "(\<exists>ob \<in> set obs. m \<in> set (materials (material_of (objs f ob)))) \<or>
           configured W stage f m (mats f m)"
  shows "configured W stage f m (mats (prepare_meshes W stage obs f) m)"
  using assms
proof (induction obs arbitrary: f)
  case Nil
  then show ?case by simp
next
  case (Cons ob obs)
  let ?ms = "materials (material_of (objs f ob))"
  let ?f = "prepare_materials W stage ?ms f"
  have flags: "wboitEnabled (mats ?f m) = JBool True" "transparent (mats ?f m) = JBool True"
    using Cons.prems by (simp_all add: prepare_materials_flags)
  have same: "configured W stage ?f m = configured W stage f m"
    using configured_caches [of ?f f W stage m]
    by (simp add: fun_eq_iff prepare_materials_frame)
  have "(\<exists>ob \<in> set obs. m \<in> set (materials (material_of (objs ?f ob)))) \<or>
        configured W stage ?f m (mats ?f m)"
  proof (cases "m \<in> set ?ms \<or> configured W stage f m (mats f m)")
    case True
    then show ?thesis
      using prepare_materials_configured [OF Cons.prems(1,2), of ?ms W stage] same by simp
  next
    case False
    then show ?thesis using Cons.prems(3) by (auto simp: prepare_materials_frame)
  qed
  then have "configured W stage ?f m (mats (prepare_meshes W stage obs ?f) m)"
    using Cons.IH [OF flags] by simp
  then show ?case by (simp add: same)
qed

lemma prepareWboitBlending_frame:
  "objs (prepareWboitBlending W stage f) = objs f \<and>
   blendingCache (prepareWboitBlending W stage f) = blendingCache f \<and>
   blendEquationCache (prepareWboitBlending W stage f) = blendEquationCache f \<and>
   blendSrcCache (prepareWboitBlending W stage f) = blendSrcCache f \<and>
   blendDstCache (prepareWboitBlending W stage f) = blendDstCache f \<and>
   wboitMeshes (prepareWboitBlending W stage f) = wboitMeshes f \<and>
   cache (prepareWboitBlending W stage f) = cache f \<and>
   testCache (prepareWboitBlending W stage f) = testCache f \<and>
   writeCache (prepareWboitBlending W stage f) = writeCache f"
  by (simp add: prepareWboitBlending_def prepare_meshes_frame)

lemma prepareWboitBlending_flags:
  "wboitEnabled (mats (prepareWboitBlending W stage f) m) = wboitEnabled (mats f m) \<and>
   transparent (mats (prepareWboitBlending W stage f) m) = transparent (mats f m)"
  by (simp add: prepareWboitBlending_def prepare_meshes_flags)

lemma prepareWboitBlending_configured:
  assumes "ob \<in> set (wboitMeshes f)"
      and "m \<in> set (materials (material_of (objs f ob)))"
      and "wboitEnabled (mats f m) = JBool True" "transparent (mats f m) = JBool True"
  shows "configured W stage f m (mats (prepareWboitBlending W stage f) m)"
  unfolding prepareWboitBlending_def
  using assms prepare_meshes_configured [of f m "wboitMeshes f" W stage] by blast

text \<open>
  Claim C2. \<open>render\<close> classifies (with its three mesh arrays empty at entry), hides
  the opaque and the transparent group in turn, and then calls the configurator with
  the stages Accumulation, Revealage and, at the end, Normal. For every material of a
  mesh of the WBOIT group whose \<open>wboitEnabled\<close> and \<open>transparent\<close> are \<open>true\<close>:
  after the Accumulation call its \<open>blendSrc\<close>/\<open>blendDst\<close> are \<open>OneFactor\<close>/\<open>OneFactor\<close>,
  after the Revealage call \<open>ZeroFactor\<close>/\<open>OneMinusSrcAlphaFactor\<close>, both times with
  \<open>depthWrite\<close> false and \<open>depthTest\<close> true; after the Normal call \<open>blendSrc\<close>,
  \<open>blendDst\<close>, \<open>blending\<close> and \<open>blendEquation\<close> are the values the material had before
  the pass. The three stage numbers are distinct, as those of an enumeration are.
\<close>

theorem stage_blend:
  assumes "wboitMeshes f0 = []"
      and "ob \<in> set (wboitMeshes (gatherMeshes g f0))"
      and "m \<in> set (materials (material_of (objs f0 ob)))"
      and "wboitEnabled (mats f0 m) = JBool True"
      and "transparent (mats f0 m) = JBool True"
      and "Revealage W \<noteq> Acummulation W"
      and "Normal W \<noteq> Acummulation W"
      and "Normal W \<noteq> Revealage W"
  shows "let f6 = changeVisible False False True (changeVisible False True False
                    (changeVisible True False False (gatherMeshes g f0)));
             fa = prepareWboitBlending W (Acummulation W) f6;
             fr = prepareWboitBlending W (Revealage W) fa;
             fn = prepareWboitBlending W (Normal W) fr
         in (blendSrc (mats fa m) = OneFactor \<and> blendDst (mats fa m) = OneFactor \<and>
             depthWrite (mats fa m) = JBool False \<and> depthTest (mats fa m) = JBool True) \<and>
            (blendSrc (mats fr m) = ZeroFactor \<and> blendDst (mats fr m) = OneMinusSrcAlphaFactor \<and>
             depthWrite (mats fr m) = JBool False \<and> depthTest (mats fr m) = JBool True) \<and>
            (blendSrc (mats fn m) = blendSrc (mats f0 m) \<and>
             blendDst (mats fn m) = blendDst (mats f0 m) \<and>
             blending (mats fn m) = blending (mats f0 m) \<and>
             blendEquation (mats fn m) = blendEquation (mats f0 m))"
proof -
  let ?f3 = "gatherMeshes g f0"
  let ?f6 = "changeVisible False False True (changeVisible False True False
               (changeVisible True False False ?f3))"
  let ?fa = "prepareWboitBlending W (Acummulation W) ?f6"
  let ?fr = "prepareWboitBlending W (Revealage W) ?fa"
  let ?fn = "prepareWboitBlending W (Normal W) ?fr"
  have objs3: "objs ?f3 = objs f0"
    by (simp add: gatherMeshes_def visit_all_objs)
  have mem6: "ob \<in> set (wboitMeshes ?f6)" "m \<in> set (materials (material_of (objs ?f6 ob)))"
    using assms(2,3) by (simp_all add: changeVisible_frame objs3)
  have flags6: "wboitEnabled (mats ?f6 m) = JBool True" "transparent (mats ?f6 m) = JBool True"
    using assms(4,5) by (simp_all add: changeVisible_frame gatherMeshes_def visit_all_flags)
  have ca: "configured W (Acummulation W) ?f6 m (mats ?fa m)"
    by (rule prepareWboitBlending_configured [OF mem6 flags6])
  have mema: "ob \<in> set (wboitMeshes ?fa)" "m \<in> set (materials (material_of (objs ?fa ob)))"
    using mem6 by (simp_all only: prepareWboitBlending_frame)
  have flagsa: "wboitEnabled (mats ?fa m) = JBool True" "transparent (mats ?fa m) = JBool True"
    using flags6 by (simp_all only: prepareWboitBlending_flags)
  have cr: "configured W (Revealage W) ?fa m (mats ?fr m)"
    by (rule prepareWboitBlending_configured [OF mema flagsa])
  have memr: "ob \<in> set (wboitMeshes ?fr)" "m \<in> set (materials (material_of (objs ?fr ob)))"
    using mema by (simp_all only: prepareWboitBlending_frame)
  have flagsr: "wboitEnabled (mats ?fr m) = JBool True" "transparent (mats ?fr m) = JBool True"
    using flagsa by (simp_all only: prepareWboitBlending_flags)
  have cn: "configured W (Normal W) ?fr m (mats ?fn m)"
    by (rule prepareWboitBlending_configured [OF memr flagsr])
  have caches: "blendingCache ?fr = blendingCache ?f3" "blendEquationCache ?fr = blendEquationCache ?f3"
    "blendSrcCache ?fr = blendSrcCache ?f3" "blendDstCache ?fr = blendDstCache ?f3"
    by (simp_all add: prepareWboitBlending_frame changeVisible_frame)
  have A: "blendSrc (mats ?fa m) = OneFactor \<and> blendDst (mats ?fa m) = OneFactor \<and>
           depthWrite (mats ?fa m) = JBool False \<and> depthTest (mats ?fa m) = JBool True"
    using ca by (simp add: configured_def)
  have R: "blendSrc (mats ?fr m) = ZeroFactor \<and> blendDst (mats ?fr m) = OneMinusSrcAlphaFactor \<and>
           depthWrite (mats ?fr m) = JBool False \<and> depthTest (mats ?fr m) = JBool True"
    using cr assms(6) by (simp add: configured_def)
  have N: "blendSrc (mats ?fn m) = blendSrc (mats f0 m) \<and>
           blendDst (mats ?fn m) = blendDst (mats f0 m) \<and>
           blending (mats ?fn m) = blending (mats f0 m) \<and>
           blendEquation (mats ?fn m) = blendEquation (mats f0 m)"
    using cn assms(7,8) gatherMeshes_snapshot [OF assms(1,2,3)]
    by (simp add: configured_def caches)
  show ?thesis
    unfolding Let_def using A R N by blast
qed

text \<open>
  The hypotheses of \<open>stage_blend\<close> hold for material 10 of mesh 1 of the sample scene.
\<close>

theorem stage_blend_witness:
  "wboitMeshes demo_frame = [] \<and>
   1 \<in> set (wboitMeshes (gatherMeshes demo_graph demo_frame)) \<and>
   10 \<in> set (materials (material_of (objs demo_frame 1))) \<and>
   wboitEnabled (mats demo_frame 10) = JBool True \<and>
   transparent (mats demo_frame 10) = JBool True \<and>
   Revealage demo_stages \<noteq> Acummulation demo_stages \<and>
   Normal demo_stages \<noteq> Acummulation demo_stages \<and>
   Normal demo_stages \<noteq> Revealage demo_stages \<and>
   (let f6 = changeVisible False False True (changeVisible False True False
               (changeVisible True False False (gatherMeshes demo_graph demo_frame)));
        fa = prepareWboitBlending demo_stages (Acummulation demo_stages) f6;
        fr = prepareWboitBlending demo_stages (Revealage demo_stages) fa;
        fn = prepareWboitBlending demo_stages (Normal demo_stages) fr
    in (blendSrc (mats fa 10) = OneFactor \<and> blendDst (mats fa 10) = OneFactor \<and>
        depthWrite (mats fa 10) = JBool False \<and> depthTest (mats fa 10) = JBool True) \<and>
       (blendSrc (mats fr 10) = ZeroFactor \<and> blendDst (mats fr 10) = OneMinusSrcAlphaFactor \<and>
        depthWrite (mats fr 10) = JBool False \<and> depthTest (mats fr 10) = JBool True) \<and>
       (blendSrc (mats fn 10) = SrcAlphaFactor \<and>
        blendDst (mats fn 10) = OneMinusSrcAlphaFactor \<and>
        blending (mats fn 10) = JNum 1 \<and>
        blendEquation (mats fn 10) = AddEquation))"
proof -
  have h1: "wboitMeshes demo_frame = []" by (simp add: demo_frame_def)
  have h2: "1 \<in> set (wboitMeshes (gatherMeshes demo_graph demo_frame))"
    by (simp add: demo_groups)
  have h3: "10 \<in> set (materials (material_of (objs demo_frame 1)))"
    by (simp add: demo_defs)
  have h4: "wboitEnabled (mats demo_frame 10) = JBool True" by (simp add: demo_defs)
  have h5: "transparent (mats demo_frame 10) = JBool True" by (simp add: demo_defs)
  have h6: "Revealage demo_stages \<noteq> Acummulation demo_stages" by (simp add: demo_stages_def)
  have h7: "Normal demo_stages \<noteq> Acummulation demo_stages" by (simp add: demo_stages_def)
  have h8: "Normal demo_stages \<noteq> Revealage demo_stages" by (simp add: demo_stages_def)
  have v: "blendSrc (mats demo_frame 10) = SrcAlphaFactor"
    "blendDst (mats demo_frame 10) = OneMinusSrcAlphaFactor"
    "blending (mats demo_frame 10) = JNum 1"
    "blendEquation (mats demo_frame 10) = AddEquation"
    by (simp_all add: demo_defs)
  show ?thesis
    using stage_blend [OF h1 h2 h3 h4 h5 h6 h7 h8] h1 h2 h3 h4 h5 h6 h7 h8
    by (simp add: v)
qed

lemma toFixed1_examples:
  "toFixed1 0 = ''0.0''" "toFixed1 1 = ''1.0''" "toFixed1 2 = ''2.0''"
  "toFixed1 (5 / 4) = ''1.3''" "toFixed1 (- 12) = ''-12.0''"
  by code_simp+

lemma toFixed1_exponent: "toFixed1 (10 ^ 21) = ''1e+21''"
  by code_simp

text \<open>What the stage channel does: the three branches.\<close>

lemma set_stage_channel_field:
  "truthy (renderStage (mats f m)) \<Longrightarrow>
   renderStage (mats (set_stage_channel stage m f) m) = JNum stage"
  by (simp add: set_stage_channel_def)

lemma set_stage_channel_uniform:
  "\<not> truthy (renderStage (mats f m)) \<Longrightarrow> uniforms (mats f m) = Some u \<Longrightarrow>
   u ''renderStage'' = Some v \<Longrightarrow>
   uniforms (mats (set_stage_channel stage m f) m) =
     Some (u(''renderStage'' \<mapsto> JStr (toFixed1 stage))) \<and>
   renderStage (mats (set_stage_channel stage m f) m) = renderStage (mats f m)"
  by (simp add: set_stage_channel_def)

lemma set_stage_channel_none:
  "\<not> truthy (renderStage (mats f m)) \<Longrightarrow>
   (case uniforms (mats f m) of None \<Rightarrow> True | Some u \<Rightarrow> u ''renderStage'' = None) \<Longrightarrow>
   set_stage_channel stage m f = f"
  by (simp add: set_stage_channel_def split: option.splits)

text \<open>
  Claim C8 fails on the code. Material 10 of the sample scene is WBOIT-enabled and
  transparent and has a \<open>renderStage\<close> field, which holds 0, and no \<open>uniforms\<close>. The
  Accumulation call configures its blend fields but leaves \<open>renderStage\<close> at 0: the
  test \<open>if (materials[i].renderStage)\<close> reads the field's value, not its presence.
\<close>

theorem stage_channel_skipped:
  "wboitEnabled (mats demo_frame 10) = JBool True \<and>
   transparent (mats demo_frame 10) = JBool True \<and>
   renderStage (mats demo_frame 10) = JNum 0 \<and>
   uniforms (mats demo_frame 10) = None \<and>
   Acummulation demo_stages = 1 \<and>
   renderStage (mats (prepareWboitBlending demo_stages (Acummulation demo_stages)
       (demo_frame\<lparr>wboitMeshes := [1]\<rparr>)) 10) = JNum 0 \<and>
   uniforms (mats (prepareWboitBlending demo_stages (Acummulation demo_stages)
       (demo_frame\<lparr>wboitMeshes := [1]\<rparr>)) 10) = None \<and>
   blendSrc (mats (prepareWboitBlending demo_stages (Acummulation demo_stages)
       (demo_frame\<lparr>wboitMeshes := [1]\<rparr>)) 10) = OneFactor"
  by (simp add: prepareWboitBlending_def prepare_material_def set_stage_blend_def
      set_stage_channel_def demo_defs demo_stages_def)

subsection \<open>Restoration\<close>

lemma reset_depth_frame:
  "objs (reset_depth ms f) = objs f \<and>
   testCache (reset_depth ms f) = testCache f \<and>
   writeCache (reset_depth ms f) = writeCache f"
  by (induction ms arbitrary: f) (simp_all add: Let_def)

lemma reset_depth_mats:
  "mats (reset_depth ms f) m =
     (if m \<in> set ms
      then (mats f m)\<lparr>depthWrite := map_get (testCache f) m,
                       depthTest := map_get (writeCache f) m\<rparr>
      else mats f m)"
  by (induction ms arbitrary: f) (simp_all add: Let_def)

lemma reset_entries_mats:
  "mats (reset_entries es f) m =
     (if \<exists>e \<in> set es. m \<in> set (materials (material_of (objs f (fst e))))
      then (mats f m)\<lparr>depthWrite := map_get (testCache f) m,
                       depthTest := map_get (writeCache f) m\<rparr>
      else mats f m)"
proof (induction es arbitrary: f)
  case Nil
  then show ?case by simp
next
  case (Cons e es)
  let ?f1 = "f\<lparr>objs := (objs f)(fst e := (objs f (fst e))\<lparr>visible := snd e\<rparr>)\<rparr>"
  let ?ms = "materials (material_of (objs f (fst e)))"
  let ?f2 = "reset_depth ?ms ?f1"
  have step: "reset_entries (e # es) f = reset_entries es ?f2"
    by (cases "material_of (objs f (fst e))") (simp_all add: Let_def)
  have mo: "\<And>ob. material_of (objs ?f2 ob) = material_of (objs f ob)"
    by (simp add: reset_depth_frame)
  have caches: "testCache ?f2 = testCache f" "writeCache ?f2 = writeCache f"
    by (simp_all add: reset_depth_frame)
  show ?case
    unfolding step Cons.IH [of ?f2] mo caches
    by (simp add: reset_depth_mats)
qed

lemma render_scene_mats:
  "mats (fst (snd (render_scene W wb g p f r))) =
     mats (resetVisible (prepareWboitBlending W (Normal W)
       (prepareWboitBlending W (Revealage W) (prepareWboitBlending W (Acummulation W)
         (changeVisible False False True (changeVisible False True False
           (changeVisible True False False
             (gatherMeshes g (f\<lparr>opaqueMeshes := [], transparentMeshes := [], wboitMeshes := [],
                                overrideMaterial := JNull\<rparr>)))))))))"
  by (simp add: render_scene_def Let_def)

text \<open>
  What \<open>render\<close> leaves in the depth flags of a material of a classified object:
  \<open>depthWrite\<close> holds the snapshot of \<open>depthTest\<close> and \<open>depthTest\<close> that of
  \<open>depthWrite\<close>.
\<close>

lemma render_scene_depth:
  assumes "ob \<in> set (traverse g)"
      and "has_material (material_of (objs f ob))"
      and "truthy (visible (objs f ob))"
      and "m \<in> set (materials (material_of (objs f ob)))"
  shows "depthWrite (mats (fst (snd (render_scene W wb g p f r))) m) =
           map_get (testCache (gatherMeshes g
             (f\<lparr>opaqueMeshes := [], transparentMeshes := [], wboitMeshes := [],
                overrideMaterial := JNull\<rparr>))) m"
    and "depthTest (mats (fst (snd (render_scene W wb g p f r))) m) =
           map_get (writeCache (gatherMeshes g
             (f\<lparr>opaqueMeshes := [], transparentMeshes := [], wboitMeshes := [],
                overrideMaterial := JNull\<rparr>))) m"
proof -
  let ?f2 = "f\<lparr>opaqueMeshes := [], transparentMeshes := [], wboitMeshes := [],
               overrideMaterial := JNull\<rparr>"
  let ?f3 = "gatherMeshes g ?f2"
  let ?f9 = "prepareWboitBlending W (Normal W)
       (prepareWboitBlending W (Revealage W) (prepareWboitBlending W (Acummulation W)
         (changeVisible False False True (changeVisible False True False
           (changeVisible True False False ?f3)))))"
  have c9: "cache ?f9 = cache ?f3" "testCache ?f9 = testCache ?f3" "writeCache ?f9 = writeCache ?f3"
    by (simp_all add: prepareWboitBlending_frame changeVisible_frame)
  have mo9: "\<And>x. material_of (objs ?f9 x) = material_of (objs f x)"
    by (simp add: prepareWboitBlending_frame changeVisible_frame gatherMeshes_def visit_all_objs)
  have "classified ?f2 ob" using assms(2,3) by (simp add: classified_def)
  then have "ob \<in> fst ` set (cache ?f3)"
    using assms(1) by (simp add: gatherMeshes_def visit_all_cache_keys)
  then have ex: "\<exists>e \<in> set (cache ?f9). m \<in> set (materials (material_of (objs ?f9 (fst e))))"
    using assms(4) unfolding c9 mo9 by auto
  have "mats (fst (snd (render_scene W wb g p f r))) m =
          (mats ?f9 m)\<lparr>depthWrite := map_get (testCache ?f3) m,
                          depthTest := map_get (writeCache ?f3) m\<rparr>"
    unfolding render_scene_mats resetVisible_def reset_entries_mats using ex
    by (simp only: c9 if_True)
  then show "depthWrite (mats (fst (snd (render_scene W wb g p f r))) m) = map_get (testCache ?f3) m"
    and "depthTest (mats (fst (snd (render_scene W wb g p f r))) m) = map_get (writeCache ?f3) m"
    by simp_all
qed

text \<open>
  Claim C1 fails on the code. In the sample scene material 10 has \<open>depthTest = true\<close>
  and \<open>depthWrite = false\<close> before \<open>render\<close>; after one call the two values are
  exchanged. Material 11, shared by the opaque mesh 2 and the transparent mesh 4, has
  \<open>depthWrite = false\<close> before; its snapshot, taken again at mesh 4 after mesh 2 has
  forced the flag, holds \<open>true\<close>, and so does the material after the call.
\<close>

theorem render_swaps_depth_flags:
  "depthTest (mats demo_frame 10) = JBool True \<and>
   depthWrite (mats demo_frame 10) = JBool False \<and>
   depthTest (mats (fst (snd (render demo_stages NullTarget
       (demo_pass, demo_frame, demo_renderer)))) 10) = JBool False \<and>
   depthWrite (mats (fst (snd (render demo_stages NullTarget
       (demo_pass, demo_frame, demo_renderer)))) 10) = JBool True \<and>
   depthWrite (mats demo_frame 11) = JBool False \<and>
   map_get (writeCache (gatherMeshes demo_graph demo_frame)) 11 = JBool True \<and>
   depthWrite (mats (fst (snd (render demo_stages NullTarget
       (demo_pass, demo_frame, demo_renderer)))) 11) = JBool True"
proof -
  let ?f3 = "gatherMeshes demo_graph (demo_frame\<lparr>opaqueMeshes := [], transparentMeshes := [],
               wboitMeshes := [], overrideMaterial := JNull\<rparr>)"
  have r: "render demo_stages NullTarget (demo_pass, demo_frame, demo_renderer) =
           render_scene demo_stages NullTarget demo_graph demo_pass demo_frame demo_renderer"
    by (simp add: render_def demo_pass_def)
  have h: "1 \<in> set (traverse demo_graph)" "has_material (material_of (objs demo_frame 1))"
    "truthy (visible (objs demo_frame 1))"
    "10 \<in> set (materials (material_of (objs demo_frame 1)))"
    by (simp_all add: demo_defs)
  have h': "4 \<in> set (traverse demo_graph)" "has_material (material_of (objs demo_frame 4))"
    "truthy (visible (objs demo_frame 4))"
    "11 \<in> set (materials (material_of (objs demo_frame 4)))"
    by (simp_all add: demo_defs)
  have c: "map_get (testCache ?f3) 10 = JBool True" "map_get (writeCache ?f3) 10 = JBool False"
    "map_get (testCache ?f3) 11 = JBool True"
    by (simp_all add: gatherMeshes_def visit_def Let_def js_and_def demo_defs)
  have w: "map_get (writeCache (gatherMeshes demo_graph demo_frame)) 11 = JBool True"
    by (simp add: gatherMeshes_def visit_def Let_def js_and_def demo_defs)
  show ?thesis
    unfolding r render_scene_depth [OF h] render_scene_depth(1) [OF h'] c w
    by (simp add: demo_defs)
qed

subsection \<open>The guard of render and the calls on the renderer\<close>

text \<open>
  Claim C6. When \<open>this.scene\<close> is \<open>null\<close>, \<open>undefined\<close>, any other non-object, or an
  object whose \<open>isScene\<close> is falsy, \<open>render\<close> returns the pass, the store with every
  material and object, and the renderer with its fields and its list of calls exactly
  as they were: no render target is bound.
\<close>

theorem render_without_scene:
  assumes "\<not> valid_scene (scene p)"
  shows "render W writeBuffer (p, f, r) = (p, f, r)"
  using assms by (cases "scene p") (simp_all add: render_def)

text \<open>
  The sample pass with \<open>scene = null\<close>.
\<close>

theorem render_without_scene_witness:
  "\<not> valid_scene (scene (demo_pass\<lparr>scene := NotObject JNull\<rparr>)) \<and>
   render demo_stages NullTarget (demo_pass\<lparr>scene := NotObject JNull\<rparr>, demo_frame, demo_renderer) =
     (demo_pass\<lparr>scene := NotObject JNull\<rparr>, demo_frame, demo_renderer)"
  using render_without_scene [of "demo_pass\<lparr>scene := NotObject JNull\<rparr>" demo_stages NullTarget
      demo_frame demo_renderer]
  by simp

text \<open>
  Claim C10. With a valid scene, the calls \<open>render\<close> makes on the renderer are: iff
  \<open>clearColor\<close> is truthy, first the bind of the write buffer, \<open>setClearColor\<close> with
  \<open>clearColor\<close> and \<open>clearAlpha\<close> and \<open>clearColor()\<close>; then, in both cases, the same
  fixed sequence of the stages, in which neither \<open>clearColor\<close> nor \<open>clearAlpha\<close> occurs.
\<close>

theorem initial_clear:
  assumes "scene p = SceneObject isScene graph" and "truthy isScene"
  shows "calls (snd (snd (render W writeBuffer (p, f, r)))) =
     calls r @
     (if truthy (clearColor p)
      then [SetRenderTarget writeBuffer, SetClearColor (clearColor p) (clearAlpha p), ClearColor]
      else []) @
     [SetRenderTarget BaseTarget, SetClearColor clearColorZero (JNum 0), Clear, RenderScene,
      PassRender OpaquePass writeBuffer (Some BaseTarget),
      SetRenderTarget BaseTarget, ClearColor, RenderScene,
      PassRender TransparentPass writeBuffer (Some BaseTarget),
      SetRenderTarget BaseTarget, ClearColor, RenderScene,
      PassRender CopyPass AccumulationTarget (Some BaseTarget),
      SetRenderTarget BaseTarget, SetClearColor clearColorOne (JNum 1), ClearColor, RenderScene,
      SetRenderTarget writeBuffer, PassRender CompositePass writeBuffer None,
      SetRenderTarget (renderTarget r), SetClearColor (rClearColor r) (rClearAlpha r)]"
  using assms
  by (simp add: render_def render_scene_def Let_def setRenderTarget_def setClearColor_def
      do_call_def)

text \<open>
  With \<open>clearColor = 0\<close> (black, given as a number, which is falsy like \<open>undefined\<close>
  and \<open>null\<close>) and \<open>clearAlpha = 1\<close> the write buffer is not cleared at the start.
\<close>

theorem initial_clear_witness:
  "scene (demo_pass\<lparr>clearColor := JNum 0, clearAlpha := JNum 1\<rparr>) =
     SceneObject (JBool True) demo_graph \<and>
   truthy (JBool True) \<and> \<not> truthy (JNum 0) \<and> \<not> truthy JUndefined \<and> \<not> truthy JNull \<and>
   calls (snd (snd (render demo_stages (ExternalTarget 7)
       (demo_pass\<lparr>clearColor := JNum 0, clearAlpha := JNum 1\<rparr>, demo_frame, demo_renderer)))) =
     [SetRenderTarget BaseTarget, SetClearColor clearColorZero (JNum 0), Clear, RenderScene,
      PassRender OpaquePass (ExternalTarget 7) (Some BaseTarget),
      SetRenderTarget BaseTarget, ClearColor, RenderScene,
      PassRender TransparentPass (ExternalTarget 7) (Some BaseTarget),
      SetRenderTarget BaseTarget, ClearColor, RenderScene,
      PassRender CopyPass AccumulationTarget (Some BaseTarget),
      SetRenderTarget BaseTarget, SetClearColor clearColorOne (JNum 1), ClearColor, RenderScene,
      SetRenderTarget (ExternalTarget 7), PassRender CompositePass (ExternalTarget 7) None,
      SetRenderTarget NullTarget, SetClearColor (JNum 0) (JNum 1)]"
proof -
  have h1: "scene (demo_pass\<lparr>clearColor := JNum 0, clearAlpha := JNum 1\<rparr>) =
              SceneObject (JBool True) demo_graph"
    by (simp add: demo_pass_def)
  have h2: "truthy (JBool True)" by simp
  show ?thesis
    using initial_clear [OF h1 h2, of demo_stages "ExternalTarget 7" demo_frame demo_renderer] h1
    by (simp add: demo_renderer_def)
qed

subsection \<open>Construction, the capability probe and sizes\<close>

lemma probe_loop_result:
  "fst (probe_loop gl 0 r) =
     Some (if round_trip_ok gl 0 then FloatType
           else if round_trip_ok gl 1 then HalfFloatType
           else UnsignedByteType)"
  by (simp add: probe_loop.simps complete_def targetTypes_def Let_def)

text \<open>The round trip of each candidate, written out.\<close>

lemma round_trip_ok_explicit:
  "round_trip_ok gl 0 \<longleftrightarrow>
     framebufferStatus (gl 0) = 36053 \<and>
     99 / 100 < red (gl 0) \<and> red (gl 0) < 101 / 100 \<and>
     99 / 100 < green (gl 0) \<and> green (gl 0) < 101 / 100 \<and>
     99 / 100 < blue (gl 0) \<and> blue (gl 0) < 101 / 100 \<and>
     - (1 / 100) < alpha (gl 0) \<and> alpha (gl 0) < 1 / 100"
  "round_trip_ok gl 1 \<longleftrightarrow>
     framebufferStatus (gl 1) = 36053 \<and>
     99 / 100 < red (gl 1) / 15360 \<and> red (gl 1) / 15360 < 101 / 100 \<and>
     99 / 100 < green (gl 1) / 15360 \<and> green (gl 1) / 15360 < 101 / 100 \<and>
     99 / 100 < blue (gl 1) / 15360 \<and> blue (gl 1) / 15360 < 101 / 100 \<and>
     - (1 / 100) < alpha (gl 1) / 15360 \<and> alpha (gl 1) / 15360 < 1 / 100"
  "round_trip_ok gl 2 \<longleftrightarrow>
     framebufferStatus (gl 2) = 36053 \<and>
     99 / 100 < red (gl 2) / 255 \<and> red (gl 2) / 255 < 101 / 100 \<and>
     99 / 100 < green (gl 2) / 255 \<and> green (gl 2) / 255 < 101 / 100 \<and>
     99 / 100 < blue (gl 2) / 255 \<and> blue (gl 2) / 255 < 101 / 100 \<and>
     - (1 / 100) < alpha (gl 2) / 255 \<and> alpha (gl 2) / 255 < 1 / 100"
  by (auto simp: round_trip_ok_def FRAMEBUFFER_COMPLETE_def Let_def targetDivisor_def
      fuzzyEqual_def testR_def testG_def testB_def testA_def)

text \<open>
  Claim C5. The probe loop tries \<open>FloatType\<close>, \<open>HalfFloatType\<close>, \<open>UnsignedByteType\<close>
  in this order. A candidate passes when the framebuffer status after the fill pass is
  \<open>FRAMEBUFFER_COMPLETE\<close> (36053) and each of the four numbers read back, divided by
  the candidate's divisor (1, 15360, 255), lies strictly within \<open>0.01\<close> of the fill
  colour (1, 1, 1, 0). The loop yields the float type when float passes, else the
  half-float type when half-float passes, else the 8-bit type, whether or not the 8-bit
  candidate passes. Both render targets of the constructed pass get the type the loop
  yields.
\<close>

theorem probe_first_passing:
  "fst (probe_loop gl 0 r) =
     Some (if framebufferStatus (gl 0) = 36053 \<and>
              99 / 100 < red (gl 0) \<and> red (gl 0) < 101 / 100 \<and>
              99 / 100 < green (gl 0) \<and> green (gl 0) < 101 / 100 \<and>
              99 / 100 < blue (gl 0) \<and> blue (gl 0) < 101 / 100 \<and>
              - (1 / 100) < alpha (gl 0) \<and> alpha (gl 0) < 1 / 100
           then FloatType
           else if framebufferStatus (gl 1) = 36053 \<and>
              99 / 100 < red (gl 1) / 15360 \<and> red (gl 1) / 15360 < 101 / 100 \<and>
              99 / 100 < green (gl 1) / 15360 \<and> green (gl 1) / 15360 < 101 / 100 \<and>
              99 / 100 < blue (gl 1) / 15360 \<and> blue (gl 1) / 15360 < 101 / 100 \<and>
              - (1 / 100) < alpha (gl 1) / 15360 \<and> alpha (gl 1) / 15360 < 1 / 100
           then HalfFloatType
           else UnsignedByteType) \<and>
   (complete gl 2 \<and>
    (round_trip_ok gl 2 \<longleftrightarrow>
       framebufferStatus (gl 2) = 36053 \<and>
       99 / 100 < red (gl 2) / 255 \<and> red (gl 2) / 255 < 101 / 100 \<and>
       99 / 100 < green (gl 2) / 255 \<and> green (gl 2) / 255 < 101 / 100 \<and>
       99 / 100 < blue (gl 2) / 255 \<and> blue (gl 2) / 255 < 101 / 100 \<and>
       - (1 / 100) < alpha (gl 2) / 255 \<and> alpha (gl 2) / 255 < 1 / 100)) \<and>
   texType (baseTarget (fst (construct_with r gl sc cam cc ca))) = fst (probe_loop gl 0 r) \<and>
   texType (accumulationTarget (fst (construct_with r gl sc cam cc ca))) = fst (probe_loop gl 0 r)"
proof -
  have c: "complete gl 2" by (simp add: complete_def targetTypes_def)
  have t: "texType (baseTarget (fst (construct_with r gl sc cam cc ca))) = fst (probe_loop gl 0 r)"
    "texType (accumulationTarget (fst (construct_with r gl sc cam cc ca))) = fst (probe_loop gl 0 r)"
    by (simp_all add: construct_with_def Let_def split_def)
  show ?thesis
    unfolding probe_loop_result round_trip_ok_explicit [symmetric]
    using c t by (simp add: probe_loop_result)
qed

text \<open>
  On \<open>demo_gl\<close> float fails on the colour alone and half-float on completeness alone,
  and the probe yields the 8-bit type; on \<open>demo_gl_float\<close> it yields float; on
  \<open>demo_gl_half\<close> float fails on alpha alone and it yields half-float; on
  \<open>demo_gl_none\<close> the 8-bit round trip fails too and it still yields the 8-bit type.
\<close>

theorem probe_first_passing_witness:
  "fst (probe_loop demo_gl 0 demo_renderer) = Some UnsignedByteType \<and>
   round_trip_ok demo_gl 2 \<and>
   fst (probe_loop demo_gl_float 0 demo_renderer) = Some FloatType \<and>
   fst (probe_loop demo_gl_half 0 demo_renderer) = Some HalfFloatType \<and>
   fst (probe_loop demo_gl_none 0 demo_renderer) = Some UnsignedByteType \<and>
   \<not> round_trip_ok demo_gl_none 2 \<and>
   texType (baseTarget (fst (construct_with demo_renderer demo_gl (NotObject JNull)
      JNull JUndefined JUndefined))) = Some UnsignedByteType"
  using probe_first_passing [of demo_gl demo_renderer "NotObject JNull" JNull JUndefined JUndefined]
    probe_first_passing [of demo_gl_float demo_renderer "NotObject JNull" JNull JUndefined JUndefined]
    probe_first_passing [of demo_gl_half demo_renderer "NotObject JNull" JNull JUndefined JUndefined]
    probe_first_passing [of demo_gl_none demo_renderer "NotObject JNull" JNull JUndefined JUndefined]
  by (simp add: demo_gl_def demo_gl_float_def demo_gl_half_def demo_gl_none_def)

text \<open>
  Claim C7 fails on the code. With \<open>renderer\<close> \<open>null\<close> or \<open>undefined\<close> the constructor
  logs the error and returns before \<open>super()\<close> has bound \<open>this\<close>, so the \<open>new\<close>
  expression throws a \<open>ReferenceError\<close>.
\<close>

theorem constructor_without_renderer:
  "WboitPass (NotRenderer JNull) gl sc cam cc ca =
     ([''WboitPass: Renderer must be supplied!''], Inl ReferenceError) \<and>
   WboitPass (NotRenderer JUndefined) gl sc cam cc ca =
     ([''WboitPass: Renderer must be supplied!''], Inl ReferenceError)"
  by (simp add: WboitPass_def)









end
